theory Spec2Isabelle
  imports Main "HOL-Library.Finite_Map" "HOL-Library.AList" "HOL-Library.Sublist"
begin

section \<open>MY-NOTE: values, errors and the file system\<close>

text \<open>
  The program (\<^verbatim>\<open>src/app.py\<close>) keeps four JSON files and a directory of Markdown
  files, and every operation reads or writes them. The embedding passes the file
  system explicitly and returns the exceptions of the Python run time as values.

  A Python \<^verbatim>\<open>str\<close> is represented by its UTF-8 encoding, an Isabelle \<open>string\<close>
  (a list of bytes). A value read from a JSON file is a \<open>json\<close>; a JSON object is an
  association list in insertion order, as a Python \<^verbatim>\<open>dict\<close> iterates. Floating
  point numbers are outside the model.
\<close>

datatype json =
    JNull
  | JBool bool
  | JInt int
  | JStr string
  | JArr "json list"
  | JObj "(string \<times> json) list"

datatype pyerr =
    FileNotFoundError
  | FileExistsError
  | IsADirectoryError
  | NotADirectoryError
  | UnicodeDecodeError
  | TypeError
  | KeyError
  | AttributeError

datatype node = Dir | File string

text \<open>
  The file system maps a path, as the program writes it, to a directory or to the
  bytes of a regular file. Paths are relative to the working directory, which is the
  empty path and always exists; a path is not normalised (no \<^verbatim>\<open>.\<close>, \<^verbatim>\<open>..\<close> or
  symbolic links). POSIX conventions: the separator is \<^verbatim>\<open>/\<close> and a text file's
  line ends are written as they are.
\<close>

type_synonym filesys = "(string, node) fmap"

subsection \<open>Constants of the program (lines 12 to 17)\<close>

definition DOCS_DIR :: string where "DOCS_DIR = ''docs''"
definition METADATA_FILE :: string where "METADATA_FILE = ''metadata.json''"
definition TEMPLATES_FILE :: string where "TEMPLATES_FILE = ''templates.json''"
definition PROMPTS_FILE :: string where "PROMPTS_FILE = ''prompts.json''"
definition KEYWORDS_FILE :: string where "KEYWORDS_FILE = ''keywords.json''"
definition MKDOCS_CONFIG :: string where "MKDOCS_CONFIG = ''mkdocs.yml''"

subsection \<open>The site configuration (lines 48 to 61)\<close>

text \<open>
  A navigation entry is a dictionary with one key: the label (any hashable value read
  from the metadata) and its target.
\<close>

datatype md_ext = ExtName string | ExtToc bool

record mkdocs_config =
  site_name :: string
  theme_name :: string
  nav :: "(json \<times> string) list"
  docs_dir :: string
  plugins :: "string list"
  markdown_extensions :: "md_ext list"

subsection \<open>Library functions the program calls\<close>

text \<open>
  What the program takes from Python's libraries is a parameter of the model:
  \<^item> \<open>json_dumps d\<close> is the text \<^verbatim>\<open>json.dump(d, f, ensure_ascii=False, indent=4)\<close> writes;
  \<^item> \<open>json_loads t\<close> is the value \<^verbatim>\<open>json.load\<close> returns on the text \<open>t\<close>, \<open>None\<close> when
    it raises \<^verbatim>\<open>json.JSONDecodeError\<close>;
  \<^item> \<open>yaml_dump c\<close> is the text \<^verbatim>\<open>yaml.dump(c, f, allow_unicode=True)\<close> writes;
  \<^item> \<open>repr_list xs\<close> is the text an f-string gives for a list of strings;
  \<^item> \<open>exc_str e\<close> is the text of an exception in an f-string.
\<close>

record pylib =
  json_dumps :: "json \<Rightarrow> string"
  json_loads :: "string \<Rightarrow> json option"
  yaml_dump :: "mkdocs_config \<Rightarrow> string"
  repr_list :: "string list \<Rightarrow> string"
  exc_str :: "pyerr \<Rightarrow> string"

subsection \<open>Text files: UTF-8 and line ends\<close>

definition LF :: char where "LF = CHR 0x0A"
definition CR :: char where "CR = CHR 0x0D"
definition DQUOTE :: char where "DQUOTE = CHR 0x22"
definition SLASH :: char where "SLASH = CHR ''/''"

definition utf8_cont :: "nat \<Rightarrow> bool" where
  "utf8_cont b = (0x80 \<le> b \<and> b \<le> 0xBF)"

definition utf8_one :: "nat \<Rightarrow> bool" where
  "utf8_one a = (a < 0x80)"

definition utf8_two :: "nat \<Rightarrow> nat \<Rightarrow> bool" where
  "utf8_two a b = (0xC2 \<le> a \<and> a \<le> 0xDF \<and> utf8_cont b)"

definition utf8_three :: "nat \<Rightarrow> nat \<Rightarrow> nat \<Rightarrow> bool" where
  "utf8_three a b c =
     ((a = 0xE0 \<and> 0xA0 \<le> b \<and> b \<le> 0xBF \<and> utf8_cont c)
      \<or> (0xE1 \<le> a \<and> a \<le> 0xEC \<and> utf8_cont b \<and> utf8_cont c)
      \<or> (a = 0xED \<and> 0x80 \<le> b \<and> b \<le> 0x9F \<and> utf8_cont c)
      \<or> (0xEE \<le> a \<and> a \<le> 0xEF \<and> utf8_cont b \<and> utf8_cont c))"

definition utf8_four :: "nat \<Rightarrow> nat \<Rightarrow> nat \<Rightarrow> nat \<Rightarrow> bool" where
  "utf8_four a b c d =
     ((a = 0xF0 \<and> 0x90 \<le> b \<and> b \<le> 0xBF \<and> utf8_cont c \<and> utf8_cont d)
      \<or> (0xF1 \<le> a \<and> a \<le> 0xF3 \<and> utf8_cont b \<and> utf8_cont c \<and> utf8_cont d)
      \<or> (a = 0xF4 \<and> 0x80 \<le> b \<and> b \<le> 0x8F \<and> utf8_cont c \<and> utf8_cont d))"

text \<open>
  The bytes a strict UTF-8 decoder accepts (no overlong form, no surrogate, nothing
  above U+10FFFF): reading a file opened with \<^verbatim>\<open>encoding="utf-8"\<close> raises
  \<^verbatim>\<open>UnicodeDecodeError\<close> on any other.
\<close>

fun utf8_bytes :: "nat list \<Rightarrow> bool" where
  "utf8_bytes [] = True"
| "utf8_bytes [a] = utf8_one a"
| "utf8_bytes [a, b] = (if utf8_one a then utf8_bytes [b] else utf8_two a b)"
| "utf8_bytes [a, b, c] =
     (if utf8_one a then utf8_bytes [b, c]
      else if utf8_two a b then utf8_bytes [c]
      else utf8_three a b c)"
| "utf8_bytes (a # b # c # d # r) =
     (if utf8_one a then utf8_bytes (b # c # d # r)
      else if utf8_two a b then utf8_bytes (c # d # r)
      else if utf8_three a b c then utf8_bytes (d # r)
      else if utf8_four a b c d then utf8_bytes r
      else False)"

definition utf8_valid :: "string \<Rightarrow> bool" where
  "utf8_valid s = utf8_bytes (map of_char s)"

text \<open>
  A file opened for reading in text mode translates \<^verbatim>\<open>\r\n\<close> and a lone \<^verbatim>\<open>\r\<close> to
  \<^verbatim>\<open>\n\<close> (universal newlines).
\<close>

fun universal_newlines :: "string \<Rightarrow> string" where
  "universal_newlines [] = []"
| "universal_newlines [c] = (if c = CR then [LF] else [c])"
| "universal_newlines (c # d # r) =
     (if c = CR \<and> d = LF then LF # universal_newlines r
      else if c = CR then LF # universal_newlines (d # r)
      else c # universal_newlines (d # r))"

subsection \<open>Paths and files\<close>

text \<open>\<^verbatim>\<open>os.path.join(a, b)\<close> and \<^verbatim>\<open>os.path.dirname(p)\<close> of \<^verbatim>\<open>posixpath\<close>.\<close>

definition path_join :: "string \<Rightarrow> string \<Rightarrow> string" where
  "path_join a b =
     (if b \<noteq> [] \<and> hd b = SLASH then b
      else if a = [] \<or> last a = SLASH then a @ b
      else a @ [SLASH] @ b)"

definition dirname :: "string \<Rightarrow> string" where
  "dirname p =
     (let head = rev (dropWhile (\<lambda>c. c \<noteq> SLASH) (rev p))
      in if head \<noteq> [] \<and> \<not> list_all (\<lambda>c. c = SLASH) head
         then rev (dropWhile (\<lambda>c. c = SLASH) (rev head))
         else head)"

definition path_exists :: "filesys \<Rightarrow> string \<Rightarrow> bool" where
  "path_exists fs p = (fmlookup fs p \<noteq> None)"

text \<open>\<^verbatim>\<open>open(p, "r", encoding="utf-8")\<close>: the bytes of the file, or the exception.\<close>

definition open_read :: "filesys \<Rightarrow> string \<Rightarrow> pyerr + string" where
  "open_read fs p =
     (case fmlookup fs p of
        None \<Rightarrow> Inl FileNotFoundError
      | Some Dir \<Rightarrow> Inl IsADirectoryError
      | Some (File b) \<Rightarrow> Inr b)"

text \<open>\<^verbatim>\<open>f.read()\<close> on a file opened so: the decoded text.\<close>

definition decode_text :: "string \<Rightarrow> pyerr + string" where
  "decode_text b = (if utf8_valid b then Inr (universal_newlines b) else Inl UnicodeDecodeError)"

text \<open>
  \<^verbatim>\<open>open(p, "w", encoding="utf-8")\<close> creates or truncates a regular file in an
  existing directory; \<open>None\<close> when it does, the exception otherwise.
\<close>

definition open_write :: "filesys \<Rightarrow> string \<Rightarrow> pyerr option" where
  "open_write fs p =
     (if p = [] then Some FileNotFoundError
      else if last p = SLASH then Some IsADirectoryError
      else (case fmlookup fs p of
        Some Dir \<Rightarrow> Some IsADirectoryError
      | _ \<Rightarrow>
        (if dirname p = [] then None
         else (case fmlookup fs (dirname p) of
            None \<Rightarrow> Some FileNotFoundError
          | Some (File b) \<Rightarrow> Some NotADirectoryError
          | Some Dir \<Rightarrow> None))))"

text \<open>\<^verbatim>\<open>with open(p, "w", encoding="utf-8") as f: f.write(text)\<close>.\<close>

definition write_text :: "filesys \<Rightarrow> string \<Rightarrow> string \<Rightarrow> pyerr + filesys" where
  "write_text fs p text =
     (case open_write fs p of
        Some e \<Rightarrow> Inl e
      | None \<Rightarrow> Inr (fmupd p (File text) fs))"

text \<open>\<^verbatim>\<open>os.remove(p)\<close>.\<close>

definition os_remove :: "filesys \<Rightarrow> string \<Rightarrow> pyerr + filesys" where
  "os_remove fs p =
     (case fmlookup fs p of
        None \<Rightarrow> Inl FileNotFoundError
      | Some Dir \<Rightarrow> Inl IsADirectoryError
      | Some (File b) \<Rightarrow> Inr (fmdrop p fs))"

section \<open>JSON load and save (lines 22 to 35)\<close>

text \<open>
  \<^verbatim>\<open>load_json\<close> catches \<^verbatim>\<open>json.JSONDecodeError\<close> only; what \<^verbatim>\<open>open\<close> and the decoder
  raise is not caught. The value parsed is returned whatever its kind.
\<close>

definition load_json :: "pylib \<Rightarrow> filesys \<Rightarrow> string \<Rightarrow> pyerr + json" where
  "load_json L fs file_path =
     (if path_exists fs file_path then
        (case open_read fs file_path of
           Inl e \<Rightarrow> Inl e
         | Inr b \<Rightarrow>
           (case decode_text b of
              Inl e \<Rightarrow> Inl e
            | Inr t \<Rightarrow>
              (case json_loads L t of
                 Some v \<Rightarrow> Inr v
               | None \<Rightarrow> Inr (JObj []))))
      else Inr (JObj []))"

definition save_json :: "pylib \<Rightarrow> filesys \<Rightarrow> string \<Rightarrow> json \<Rightarrow> pyerr + filesys" where
  "save_json L fs file_path data = write_text fs file_path (json_dumps L data)"

section \<open>Python values\<close>

text \<open>
  Nothing checks that a value loaded from a store is a dictionary, so the operations
  the program applies to it are modelled on every kind of value, with the exception
  Python raises where the operation does not apply.
\<close>

text \<open>The truth value of \<^verbatim>\<open>if x:\<close>.\<close>

fun py_truthy :: "json \<Rightarrow> bool" where
  "py_truthy JNull = False"
| "py_truthy (JBool b) = b"
| "py_truthy (JInt n) = (n \<noteq> 0)"
| "py_truthy (JStr s) = (s \<noteq> [])"
| "py_truthy (JArr xs) = (xs \<noteq> [])"
| "py_truthy (JObj kvs) = (kvs \<noteq> [])"

text \<open>\<^verbatim>\<open>k in x\<close> for a string \<open>k\<close>.\<close>

fun py_contains :: "json \<Rightarrow> string \<Rightarrow> pyerr + bool" where
  "py_contains (JObj kvs) k = Inr (k \<in> set (map fst kvs))"
| "py_contains (JArr xs) k = Inr (JStr k \<in> set xs)"
| "py_contains (JStr s) k = Inr (sublist k s)"
| "py_contains JNull k = Inl TypeError"
| "py_contains (JBool b) k = Inl TypeError"
| "py_contains (JInt n) k = Inl TypeError"

text \<open>\<^verbatim>\<open>x[k]\<close> for a string \<open>k\<close>.\<close>

fun py_getitem :: "json \<Rightarrow> string \<Rightarrow> pyerr + json" where
  "py_getitem (JObj kvs) k = (case map_of kvs k of None \<Rightarrow> Inl KeyError | Some v \<Rightarrow> Inr v)"
| "py_getitem x k = Inl TypeError"

text \<open>\<^verbatim>\<open>x[k] = v\<close>: a key already there keeps its place, a new one goes last.\<close>

fun py_setitem :: "json \<Rightarrow> string \<Rightarrow> json \<Rightarrow> pyerr + json" where
  "py_setitem (JObj kvs) k v = Inr (JObj (AList.update k v kvs))"
| "py_setitem x k v = Inl TypeError"

text \<open>\<^verbatim>\<open>del x[k]\<close>.\<close>

fun py_delitem :: "json \<Rightarrow> string \<Rightarrow> pyerr + json" where
  "py_delitem (JObj kvs) k =
     (if k \<in> set (map fst kvs) then Inr (JObj (AList.delete k kvs)) else Inl KeyError)"
| "py_delitem x k = Inl TypeError"

text \<open>\<^verbatim>\<open>x.items()\<close>.\<close>

fun py_items :: "json \<Rightarrow> pyerr + (string \<times> json) list" where
  "py_items (JObj kvs) = Inr kvs"
| "py_items x = Inl AttributeError"

text \<open>A value that can be the key of a dictionary.\<close>

fun py_hashable :: "json \<Rightarrow> bool" where
  "py_hashable (JArr xs) = False"
| "py_hashable (JObj kvs) = False"
| "py_hashable x = True"

section \<open>Documents (lines 91 to 145)\<close>

subsection \<open>File names\<close>

text \<open>\<^verbatim>\<open>str(counter)\<close> for a counter that starts at 1 and grows.\<close>

definition digit_char :: "nat \<Rightarrow> char" where
  "digit_char d = char_of (48 + d)"

fun str_nat :: "nat \<Rightarrow> string" where
  "str_nat n = (if n < 10 then [digit_char n] else str_nat (n div 10) @ [digit_char (n mod 10)])"

declare str_nat.simps [simp del]

text \<open>\<^verbatim>\<open>f"{date_str}-#{counter}.md"\<close> and its path below the documents directory.\<close>

definition filename_of :: "string \<Rightarrow> nat \<Rightarrow> string" where
  "filename_of date_str counter = date_str @ ''-#'' @ str_nat counter @ ''.md''"

definition doc_path :: "string \<Rightarrow> nat \<Rightarrow> string" where
  "doc_path date_str counter = path_join DOCS_DIR (filename_of date_str counter)"

text \<open>Reading a decimal back: the inverse of \<open>str_nat\<close>, used to tell file names apart.\<close>

definition nat_of_str :: "string \<Rightarrow> nat" where
  "nat_of_str s = foldl (\<lambda>a c. 10 * a + (of_char c - 48)) 0 s"

lemma of_char_digit_char: "d < 10 \<Longrightarrow> (of_char (digit_char d) :: nat) = 48 + d"
  by (simp add: digit_char_def)

lemma nat_of_str_str_nat: "nat_of_str (str_nat n) = n"
proof (induction n rule: str_nat.induct)
  case (1 n)
  show ?case
  proof (cases "n < 10")
    case True
    then show ?thesis
      by (simp add: str_nat.simps [of n] nat_of_str_def of_char_digit_char)
  next
    case False
    with "1.IH" have IH: "nat_of_str (str_nat (n div 10)) = n div 10" by simp
    have "n mod 10 < 10" by simp
    then have d: "(of_char (digit_char (n mod 10)) :: nat) = 48 + n mod 10"
      by (rule of_char_digit_char)
    from False have "nat_of_str (str_nat n)
        = 10 * nat_of_str (str_nat (n div 10)) + (of_char (digit_char (n mod 10)) - 48)"
      by (simp add: str_nat.simps [of n] nat_of_str_def)
    with IH d show ?thesis by simp
  qed
qed

lemma str_nat_inj: "str_nat n = str_nat m \<Longrightarrow> n = m"
  by (metis nat_of_str_str_nat)

lemma filename_of_inj: "filename_of d n = filename_of d m \<Longrightarrow> n = m"
  by (simp add: filename_of_def str_nat_inj)

lemma doc_path_inj: "doc_path d n = doc_path d m \<Longrightarrow> n = m"
proof -
  assume eq: "doc_path d n = doc_path d m"
  have hd_eq: "hd (filename_of d n) = hd (filename_of d m)"
    by (cases d) (simp_all add: filename_of_def)
  have ne: "filename_of d n \<noteq> []" "filename_of d m \<noteq> []"
    by (simp_all add: filename_of_def)
  from eq hd_eq ne have "filename_of d n = filename_of d m"
    by (auto simp: doc_path_def path_join_def DOCS_DIR_def split: if_splits)
  then show ?thesis by (rule filename_of_inj)
qed

lemma finite_doc_suffixes: "finite {n. path_exists fs (doc_path d n)}"
proof -
  have "inj (doc_path d)"
    by (rule injI) (rule doc_path_inj)
  then have "finite (doc_path d -` fmdom' fs)"
    by (simp add: finite_vimageI)
  moreover have "{n. path_exists fs (doc_path d n)} \<subseteq> doc_path d -` fmdom' fs"
    by (auto simp: path_exists_def fmdom'I)
  ultimately show ?thesis
    by (rule rev_finite_subset)
qed

text \<open>
  The loop of \<^verbatim>\<open>generate_filename\<close> (lines 96 to 101): the first counter from
  \<open>counter\<close> on whose file does not exist. It stops because the file system holds
  finitely many files.
\<close>

function next_filename :: "filesys \<Rightarrow> string \<Rightarrow> nat \<Rightarrow> string" where
  "next_filename fs date_str counter =
     (if \<not> path_exists fs (doc_path date_str counter)
      then filename_of date_str counter
      else next_filename fs date_str (counter + 1))"
  by pat_completeness auto
termination
proof (relation "measure (\<lambda>(fs, d, c). card {n. c \<le> n \<and> path_exists fs (doc_path d n)})")
  show "wf (measure (\<lambda>(fs, d, c). card {n. c \<le> n \<and> path_exists fs (doc_path d n)}))"
    by simp
next
  fix fs :: filesys and date_str :: string and counter :: nat
  assume ex: "\<not> \<not> path_exists fs (doc_path date_str counter)"
  let ?A = "{n. counter \<le> n \<and> path_exists fs (doc_path date_str n)}"
  let ?B = "{n. counter + 1 \<le> n \<and> path_exists fs (doc_path date_str n)}"
  have fin: "finite ?A"
    by (rule rev_finite_subset [OF finite_doc_suffixes [of fs date_str]]) auto
  from ex have "counter \<in> ?A" and "counter \<notin> ?B" and "?B \<subseteq> ?A"
    by auto
  then have "?B \<subset> ?A"
    by blast
  with fin have "card ?B < card ?A"
    by (rule psubset_card_mono)
  then show "((fs, date_str, counter + 1), (fs, date_str, counter))
      \<in> measure (\<lambda>(fs, d, c). card {n. c \<le> n \<and> path_exists fs (doc_path d n)})"
    by simp
qed

declare next_filename.simps [simp del]

text \<open>
  \<^verbatim>\<open>generate_filename\<close>: the documents directory is made when it is missing; the date
  of the clock, formatted \<^verbatim>\<open>%Y-%m-%d\<close>, is the argument \<open>date_str\<close>.
\<close>

definition generate_filename :: "string \<Rightarrow> filesys \<Rightarrow> filesys \<times> string" where
  "generate_filename date_str fs =
     (let fs1 = (if \<not> path_exists fs DOCS_DIR then fmupd DOCS_DIR Dir fs else fs)
      in (fs1, next_filename fs1 date_str 1))"

section \<open>Messages\<close>

text \<open>
  The messages of the program are Korean string literals. Each constant below is the
  UTF-8 encoding of the literal at the line named, with its meaning in English.
\<close>

definition bytes :: "nat list \<Rightarrow> string" where
  "bytes ns = map char_of ns"

text \<open>Line 186, before the folder: the given folder does not exist.\<close>

definition MSG_NO_FOLDER :: string where
  "MSG_NO_FOLDER = bytes
     [0xEC, 0xA7, 0x80, 0xEC, 0xA0, 0x95, 0xEB, 0x90, 0x9C, 0x20, 0xED, 0x8F, 0xB4, 0xEB,
      0x8D, 0x94, 0xEA, 0xB0, 0x80, 0x20, 0xEC, 0xA1, 0xB4, 0xEC, 0x9E, 0xAC, 0xED, 0x95,
      0x98, 0xEC, 0xA7, 0x80, 0x20, 0xEC, 0x95, 0x8A, 0xEC, 0x8A, 0xB5, 0xEB, 0x8B, 0x88,
      0xEB, 0x8B, 0xA4, 0x3A, 0x20]"

text \<open>Line 191, before the folder: merged folder.\<close>

definition MSG_MERGED_FOLDER :: string where
  "MSG_MERGED_FOLDER = bytes
     [0xED, 0x95, 0xA9, 0xEC, 0xB3, 0x90, 0xEC, 0xA7, 0x84, 0x20, 0xED, 0x8F, 0xB4, 0xEB,
      0x8D, 0x94, 0x3A, 0x20]"

text \<open>Line 201, before the output path: the merged file has been made.\<close>

definition MSG_MERGED_OK :: string where
  "MSG_MERGED_OK = bytes
     [0x4D, 0x65, 0x72, 0x67, 0x65, 0x64, 0x20, 0xED, 0x8C, 0x8C, 0xEC, 0x9D, 0xBC, 0xEC,
      0x9D, 0xB4, 0x20, 0xEC, 0x84, 0xB1, 0xEA, 0xB3, 0xB5, 0xEC, 0xA0, 0x81, 0xEC, 0x9C,
      0xBC, 0xEB, 0xA1, 0x9C, 0x20, 0xEC, 0x83, 0x9D, 0xEC, 0x84, 0xB1, 0xEB, 0x90, 0x98,
      0xEC, 0x97, 0x88, 0xEC, 0x8A, 0xB5, 0xEB, 0x8B, 0x88, 0xEB, 0x8B, 0xA4, 0x3A, 0x20]"

text \<open>Line 203, before the exception: an error while merging.\<close>

definition MSG_MERGE_ERROR :: string where
  "MSG_MERGE_ERROR = bytes
     [0xED, 0x8C, 0x8C, 0xEC, 0x9D, 0xBC, 0x20, 0xEB, 0xB3, 0x91, 0xED, 0x95, 0xA9, 0x20,
      0xEC, 0xA4, 0x91, 0x20, 0xEC, 0x98, 0xA4, 0xEB, 0xA5, 0x98, 0x20, 0xEB, 0xB0, 0x9C,
      0xEC, 0x83, 0x9D, 0x3A, 0x20]"

text \<open>Line 251: enter a title.\<close>

definition MSG_NO_TITLE :: string where
  "MSG_NO_TITLE = bytes
     [0xEC, 0xA0, 0x9C, 0xEB, 0xAA, 0xA9, 0xEC, 0x9D, 0x84, 0x20, 0xEC, 0x9E, 0x85, 0xEB,
      0xA0, 0xA5, 0xED, 0x95, 0x98, 0xEC, 0x84, 0xB8, 0xEC, 0x9A, 0x94, 0x2E]"

text \<open>Lines 254, 269 and 279, before the file name: document, and an opening quote.\<close>

definition MSG_DOC_PRE :: string where
  "MSG_DOC_PRE = bytes
     [0xEB, 0xAC, 0xB8, 0xEC, 0x84, 0x9C, 0x20, 0x27]"

text \<open>Line 254, after the file name: has been added.\<close>

definition MSG_DOC_ADDED :: string where
  "MSG_DOC_ADDED = bytes
     [0x27, 0xEC, 0x9D, 0xB4, 0x20, 0xEC, 0xB6, 0x94, 0xEA, 0xB0, 0x80, 0xEB, 0x90, 0x98,
      0xEC, 0x97, 0x88, 0xEC, 0x8A, 0xB5, 0xEB, 0x8B, 0x88, 0xEB, 0x8B, 0xA4, 0x2E]"

text \<open>Line 269, after the file name: has been modified.\<close>

definition MSG_DOC_EDITED :: string where
  "MSG_DOC_EDITED = bytes
     [0x27, 0xEC, 0x9D, 0xB4, 0x20, 0xEC, 0x88, 0x98, 0xEC, 0xA0, 0x95, 0xEB, 0x90, 0x98,
      0xEC, 0x97, 0x88, 0xEC, 0x8A, 0xB5, 0xEB, 0x8B, 0x88, 0xEB, 0x8B, 0xA4, 0x2E]"

text \<open>Line 279, after the file name: has been deleted.\<close>

definition MSG_DOC_DELETED :: string where
  "MSG_DOC_DELETED = bytes
     [0x27, 0xEC, 0x9D, 0xB4, 0x20, 0xEC, 0x82, 0xAD, 0xEC, 0xA0, 0x9C, 0xEB, 0x90, 0x98,
      0xEC, 0x97, 0x88, 0xEC, 0x8A, 0xB5, 0xEB, 0x8B, 0x88, 0xEB, 0x8B, 0xA4, 0x2E]"

text \<open>Line 271: there is no document to modify.\<close>

definition MSG_NO_DOC_TO_EDIT :: string where
  "MSG_NO_DOC_TO_EDIT = bytes
     [0xEC, 0x88, 0x98, 0xEC, 0xA0, 0x95, 0xED, 0x95, 0xA0, 0x20, 0xEB, 0xAC, 0xB8, 0xEC,
      0x84, 0x9C, 0xEA, 0xB0, 0x80, 0x20, 0xEC, 0x97, 0x86, 0xEC, 0x8A, 0xB5, 0xEB, 0x8B,
      0x88, 0xEB, 0x8B, 0xA4, 0x2E]"

text \<open>Line 281: there is no document to delete.\<close>

definition MSG_NO_DOC_TO_DELETE :: string where
  "MSG_NO_DOC_TO_DELETE = bytes
     [0xEC, 0x82, 0xAD, 0xEC, 0xA0, 0x9C, 0xED, 0x95, 0xA0, 0x20, 0xEB, 0xAC, 0xB8, 0xEC,
      0x84, 0x9C, 0xEA, 0xB0, 0x80, 0x20, 0xEC, 0x97, 0x86, 0xEC, 0x8A, 0xB5, 0xEB, 0x8B,
      0x88, 0xEB, 0x8B, 0xA4, 0x2E]"

text \<open>Line 308: the template ID exists already.\<close>

definition MSG_TEMPLATE_EXISTS :: string where
  "MSG_TEMPLATE_EXISTS = bytes
     [0xEC, 0x9D, 0xB4, 0xEB, 0xAF, 0xB8, 0x20, 0xEC, 0xA1, 0xB4, 0xEC, 0x9E, 0xAC, 0xED,
      0x95, 0x98, 0xEB, 0x8A, 0x94, 0x20, 0xED, 0x85, 0x9C, 0xED, 0x94, 0x8C, 0xEB, 0xA6,
      0xBF, 0x20, 0x49, 0x44, 0xEC, 0x9E, 0x85, 0xEB, 0x8B, 0x88, 0xEB, 0x8B, 0xA4, 0x2E]"

text \<open>Line 312, before the ID: template, and an opening quote.\<close>

definition MSG_TEMPLATE_PRE :: string where
  "MSG_TEMPLATE_PRE = bytes
     [0xED, 0x85, 0x9C, 0xED, 0x94, 0x8C, 0xEB, 0xA6, 0xBF, 0x20, 0x27]"

text \<open>Line 361: the prompt ID exists already.\<close>

definition MSG_PROMPT_EXISTS :: string where
  "MSG_PROMPT_EXISTS = bytes
     [0xEC, 0x9D, 0xB4, 0xEB, 0xAF, 0xB8, 0x20, 0xEC, 0xA1, 0xB4, 0xEC, 0x9E, 0xAC, 0xED,
      0x95, 0x98, 0xEB, 0x8A, 0x94, 0x20, 0xED, 0x94, 0x84, 0xEB, 0xA1, 0xAC, 0xED, 0x94,
      0x84, 0xED, 0x8A, 0xB8, 0x20, 0x49, 0x44, 0xEC, 0x9E, 0x85, 0xEB, 0x8B, 0x88, 0xEB,
      0x8B, 0xA4, 0x2E]"

text \<open>Line 365, before the ID: prompt, and an opening quote.\<close>

definition MSG_PROMPT_PRE :: string where
  "MSG_PROMPT_PRE = bytes
     [0xED, 0x94, 0x84, 0xEB, 0xA1, 0xAC, 0xED, 0x94, 0x84, 0xED, 0x8A, 0xB8, 0x20, 0x27]"

text \<open>Line 412: the keyword exists already.\<close>

definition MSG_KEYWORD_EXISTS :: string where
  "MSG_KEYWORD_EXISTS = bytes
     [0xEC, 0x9D, 0xB4, 0xEB, 0xAF, 0xB8, 0x20, 0xEC, 0xA1, 0xB4, 0xEC, 0x9E, 0xAC, 0xED,
      0x95, 0x98, 0xEB, 0x8A, 0x94, 0x20, 0xED, 0x82, 0xA4, 0xEC, 0x9B, 0x8C, 0xEB, 0x93,
      0x9C, 0xEC, 0x9E, 0x85, 0xEB, 0x8B, 0x88, 0xEB, 0x8B, 0xA4, 0x2E]"

text \<open>Line 416, before the keyword: keyword, and an opening quote.\<close>

definition MSG_KEYWORD_PRE :: string where
  "MSG_KEYWORD_PRE = bytes
     [0xED, 0x82, 0xA4, 0xEC, 0x9B, 0x8C, 0xEB, 0x93, 0x9C, 0x20, 0x27]"

text \<open>Lines 312, 365 and 416, after the key: added.\<close>

definition MSG_ADDED :: string where
  "MSG_ADDED = bytes
     [0x27, 0x20, 0xEC, 0xB6, 0x94, 0xEA, 0xB0, 0x80, 0x20, 0xEC, 0x99, 0x84, 0xEB, 0xA3,
      0x8C, 0x21]"

text \<open>What the page shows after an action: \<^verbatim>\<open>st.error\<close>, \<^verbatim>\<open>st.success\<close>, \<^verbatim>\<open>st.info\<close>.\<close>

datatype ui_msg = StError string | StSuccess string | StInfo string

subsection \<open>Create, read, delete\<close>

text \<open>\<^verbatim>\<open>sep.join(xs)\<close>.\<close>

fun py_join :: "string \<Rightarrow> string list \<Rightarrow> string" where
  "py_join sep [] = []"
| "py_join sep [x] = x"
| "py_join sep (x # y # r) = x @ sep @ py_join sep (y # r)"

text \<open>The front matter of a document (lines 108 to 114).\<close>

definition front_matter :: "pylib \<Rightarrow> string \<Rightarrow> string \<Rightarrow> string list \<Rightarrow> string list" where
  "front_matter L title category tags =
     [''---'',
      ''title: '' @ [DQUOTE] @ title @ [DQUOTE],
      ''category: '' @ [DQUOTE] @ category @ [DQUOTE],
      ''tags: '' @ repr_list L tags,
      ''---'' @ [LF]]"

text \<open>The metadata entry of a document (lines 120 to 124).\<close>

definition doc_meta :: "string \<Rightarrow> string \<Rightarrow> string list \<Rightarrow> json" where
  "doc_meta title category tags =
     JObj [(''title'', JStr title), (''category'', JStr category), (''tags'', JArr (map JStr tags))]"

text \<open>
  \<^verbatim>\<open>create_document\<close>: load the metadata, take a new file name, write the file, enter
  the document in the metadata and save them. An exception ends the operation; the
  model then returns the exception alone.
\<close>

definition create_document ::
  "pylib \<Rightarrow> string \<Rightarrow> filesys \<Rightarrow> string \<Rightarrow> string \<Rightarrow> string list \<Rightarrow> string
     \<Rightarrow> pyerr + (filesys \<times> string)" where
  "create_document L date_str fs title category tags content =
     (case load_json L fs METADATA_FILE of
        Inl e \<Rightarrow> Inl e
      | Inr metadata \<Rightarrow>
        (let (fs1, file_name) = generate_filename date_str fs;
             file_path = path_join DOCS_DIR file_name
         in case write_text fs1 file_path
                   (py_join [LF] (front_matter L title category tags) @ content) of
              Inl e \<Rightarrow> Inl e
            | Inr fs2 \<Rightarrow>
              (case py_setitem metadata file_name (doc_meta title category tags) of
                 Inl e \<Rightarrow> Inl e
               | Inr metadata' \<Rightarrow>
                 (case save_json L fs2 METADATA_FILE metadata' of
                    Inl e \<Rightarrow> Inl e
                  | Inr fs3 \<Rightarrow> Inr (fs3, file_name)))))"

definition load_markdown_file :: "filesys \<Rightarrow> string \<Rightarrow> pyerr + string" where
  "load_markdown_file fs file_name =
     (let file_path = path_join DOCS_DIR file_name
      in if path_exists fs file_path then
           (case open_read fs file_path of
              Inl e \<Rightarrow> Inl e
            | Inr b \<Rightarrow> decode_text b)
         else Inr [])"

definition delete_document :: "pylib \<Rightarrow> filesys \<Rightarrow> string \<Rightarrow> pyerr + filesys" where
  "delete_document L fs file_name =
     (case load_json L fs METADATA_FILE of
        Inl e \<Rightarrow> Inl e
      | Inr metadata \<Rightarrow>
        (case py_contains metadata file_name of
           Inl e \<Rightarrow> Inl e
         | Inr present \<Rightarrow>
           (case (if present then
                    (case py_delitem metadata file_name of
                       Inl e \<Rightarrow> Inl e
                     | Inr metadata' \<Rightarrow> save_json L fs METADATA_FILE metadata')
                  else Inr fs) of
              Inl e \<Rightarrow> Inl e
            | Inr fs1 \<Rightarrow>
              (let file_path = path_join DOCS_DIR file_name
               in if path_exists fs1 file_path then os_remove fs1 file_path else Inr fs1))))"

section \<open>The site configuration builder (lines 40 to 86)\<close>

definition base_config :: mkdocs_config where
  "base_config =
     \<lparr>site_name = ''MY-NOTE'',
      theme_name = ''material'',
      nav = [(JStr ''Home'', ''index.md'')],
      docs_dir = DOCS_DIR,
      plugins = [''search''],
      markdown_extensions =
        [ExtName ''admonition'', ExtName ''codehilite'', ExtToc True,
         ExtName ''footnotes'', ExtName ''meta'']\<rparr>"

text \<open>
  The loop over the documents (lines 64 to 66): one entry for each, appended in the
  order of the metadata. A document with no title, or with a title that cannot be a
  key, raises.
\<close>

fun nav_documents :: "(string \<times> json) list \<Rightarrow> (json \<times> string) list \<Rightarrow> pyerr + (json \<times> string) list" where
  "nav_documents [] entries = Inr entries"
| "nav_documents ((fname, meta) # rest) entries =
     (case py_getitem meta ''title'' of
        Inl e \<Rightarrow> Inl e
      | Inr title \<Rightarrow>
        (if py_hashable title then nav_documents rest (entries @ [(title, fname)])
         else Inl TypeError))"

text \<open>The configuration built from the four stores (lines 42 to 74).\<close>

definition build_config :: "pylib \<Rightarrow> filesys \<Rightarrow> pyerr + mkdocs_config" where
  "build_config L fs =
     (case load_json L fs METADATA_FILE of
        Inl e \<Rightarrow> Inl e
      | Inr metadata \<Rightarrow>
     (case load_json L fs TEMPLATES_FILE of
        Inl e \<Rightarrow> Inl e
      | Inr templates \<Rightarrow>
     (case load_json L fs PROMPTS_FILE of
        Inl e \<Rightarrow> Inl e
      | Inr prompts \<Rightarrow>
     (case load_json L fs KEYWORDS_FILE of
        Inl e \<Rightarrow> Inl e
      | Inr keywords \<Rightarrow>
     (case py_items metadata of
        Inl e \<Rightarrow> Inl e
      | Inr items \<Rightarrow>
     (case nav_documents items (nav base_config) of
        Inl e \<Rightarrow> Inl e
      | Inr nav1 \<Rightarrow>
        (let nav2 = (if py_truthy templates
                     then nav1 @ [(JStr ''Templates'', ''templates.md'')] else nav1);
             nav3 = (if py_truthy prompts
                     then nav2 @ [(JStr ''Prompts'', ''prompts.md'')] else nav2);
             nav4 = (if py_truthy keywords
                     then nav3 @ [(JStr ''Keywords'', ''keywords.md'')] else nav3)
         in Inr (base_config\<lparr>nav := nav4\<rparr>))))))))"

definition INDEX_DEFAULT :: string where
  "INDEX_DEFAULT = ''# Welcome to MY-NOTE'' @ [LF, LF] @ ''This is your project'' @ [CHR 0x27]
     @ ''s index page.''"

definition mkdocs_setup :: "pylib \<Rightarrow> filesys \<Rightarrow> pyerr + filesys" where
  "mkdocs_setup L fs =
     (case build_config L fs of
        Inl e \<Rightarrow> Inl e
      | Inr mkdocs_config \<Rightarrow>
        (case write_text fs MKDOCS_CONFIG (yaml_dump L mkdocs_config) of
           Inl e \<Rightarrow> Inl e
         | Inr fs1 \<Rightarrow>
           (let fs2 = (if \<not> path_exists fs1 DOCS_DIR then fmupd DOCS_DIR Dir fs1 else fs1);
                index_file_path = path_join DOCS_DIR ''index.md''
            in if \<not> path_exists fs2 index_file_path
               then write_text fs2 index_file_path INDEX_DEFAULT
               else Inr fs2)))"

section \<open>Merging Markdown files (lines 181 to 203)\<close>

text \<open>
  The files of one directory (lines 194 to 200): the text written so far, and the
  exception that stopped the loop, if any. The heading of a file is written before
  the file is read.
\<close>

fun merge_files :: "filesys \<Rightarrow> string \<Rightarrow> string list \<Rightarrow> string \<Rightarrow> string \<times> pyerr option" where
  "merge_files fs root [] out = (out, None)"
| "merge_files fs root (file # files) out =
     (if suffix ''.md'' file then
        (case open_read fs (path_join root file) of
           Inl e \<Rightarrow> (out, Some e)
         | Inr b \<Rightarrow>
           (let out1 = out @ ''## '' @ file @ [LF, LF]
            in case decode_text b of
                 Inl e \<Rightarrow> (out1, Some e)
               | Inr t \<Rightarrow>
                 merge_files fs root files
                   (out1 @ t @ [LF, LF] @ replicate 40 (CHR ''-'') @ [LF, LF])))
      else merge_files fs root files out)"

fun merge_walk :: "filesys \<Rightarrow> (string \<times> string list) list \<Rightarrow> string \<Rightarrow> string \<times> pyerr option" where
  "merge_walk fs [] out = (out, None)"
| "merge_walk fs ((root, files) # rest) out =
     (case merge_files fs root files out of
        (out1, Some e) \<Rightarrow> (out1, Some e)
      | (out1, None) \<Rightarrow> merge_walk fs rest out1)"

text \<open>
  \<^verbatim>\<open>merge_md_files\<close> returns a message; every exception after the first test is
  caught and reported in it. The time of the clock, formatted, is the argument \<open>now\<close>;
  what \<^verbatim>\<open>os.walk(folder_path)\<close> yields, in the order of the operating system, is the
  argument \<open>walk\<close>: each directory's path with the names of its files. The output
  file is created when it is opened and holds what was written when it is closed; a
  file read in between sees it empty.
\<close>

definition merge_md_files ::
  "pylib \<Rightarrow> string \<Rightarrow> (string \<times> string list) list \<Rightarrow> filesys \<Rightarrow> string \<Rightarrow> string
     \<Rightarrow> filesys \<times> string" where
  "merge_md_files L now walk fs folder_path output_file =
     (if \<not> path_exists fs folder_path then (fs, MSG_NO_FOLDER @ folder_path)
      else
        (case open_write fs output_file of
           Some e \<Rightarrow> (fs, MSG_MERGE_ERROR @ exc_str L e)
         | None \<Rightarrow>
           (let fs1 = fmupd output_file (File []) fs;
                header = ''# MERGED Overview ('' @ now @ '')'' @ [LF, LF]
                         @ MSG_MERGED_FOLDER @ folder_path @ [LF, LF]
            in case merge_walk fs1 walk header of
                 (out, Some e) \<Rightarrow>
                   (fmupd output_file (File out) fs1, MSG_MERGE_ERROR @ exc_str L e)
               | (out, None) \<Rightarrow>
                   (fmupd output_file (File out) fs1, MSG_MERGED_OK @ output_file))))"

section \<open>The actions of the page (lines 224 to 416)\<close>

text \<open>
  The page runs from the top at every action. An action below is the run in which its
  button is pressed; the values of the input fields at that time are its arguments
  (for a list of tags, the list made of the field by lines 246 and 267). The result
  is the new file system and the message shown.
\<close>

subsection \<open>Documents\<close>

definition doc_add_submit ::
  "pylib \<Rightarrow> string \<Rightarrow> filesys \<Rightarrow> string \<Rightarrow> string \<Rightarrow> string list \<Rightarrow> string
     \<Rightarrow> pyerr + (filesys \<times> ui_msg)" where
  "doc_add_submit L date_str fs title category tags content =
     (case load_json L fs METADATA_FILE of
        Inl e \<Rightarrow> Inl e
      | Inr metadata \<Rightarrow>
        (if title = [] then Inr (fs, StError MSG_NO_TITLE)
         else
           (case create_document L date_str fs title category tags content of
              Inl e \<Rightarrow> Inl e
            | Inr (fs', file_name) \<Rightarrow>
                Inr (fs', StSuccess (MSG_DOC_PRE @ file_name @ MSG_DOC_ADDED)))))"

text \<open>Whether \<^verbatim>\<open>", ".join(x)\<close> returns: \<open>x\<close> must yield strings.\<close>

fun py_joinable :: "json \<Rightarrow> bool" where
  "py_joinable (JArr xs) = list_all (\<lambda>x. case x of JStr s \<Rightarrow> True | _ \<Rightarrow> False) xs"
| "py_joinable (JStr s) = True"
| "py_joinable (JObj kvs) = True"
| "py_joinable x = False"

text \<open>
  The form of the edit action (lines 259 to 264) reads the selected document's entry
  and file to fill its fields; it raises where a field of the entry is missing.
\<close>

definition doc_edit_form :: "filesys \<Rightarrow> json \<Rightarrow> string \<Rightarrow> pyerr + unit" where
  "doc_edit_form fs metadata file_name =
     (case py_items metadata of
        Inl e \<Rightarrow> Inl e
      | Inr items \<Rightarrow>
     (case py_getitem metadata file_name of
        Inl e \<Rightarrow> Inl e
      | Inr entry \<Rightarrow>
     (case py_getitem entry ''title'' of
        Inl e \<Rightarrow> Inl e
      | Inr title \<Rightarrow>
     (case py_getitem entry ''category'' of
        Inl e \<Rightarrow> Inl e
      | Inr category \<Rightarrow>
     (case py_getitem entry ''tags'' of
        Inl e \<Rightarrow> Inl e
      | Inr tags \<Rightarrow>
        (if \<not> py_joinable tags then Inl TypeError
         else
           (case load_markdown_file fs file_name of
              Inl e \<Rightarrow> Inl e
            | Inr content \<Rightarrow> Inr ())))))))"

text \<open>
  The edit action (lines 256 to 271): \<open>file_name\<close> is the document selected. Line 268
  calls \<^verbatim>\<open>create_document\<close> with the fields; the selected name goes to the message
  only.
\<close>

definition doc_edit_submit ::
  "pylib \<Rightarrow> string \<Rightarrow> filesys \<Rightarrow> string \<Rightarrow> string \<Rightarrow> string \<Rightarrow> string list \<Rightarrow> string
     \<Rightarrow> pyerr + (filesys \<times> ui_msg)" where
  "doc_edit_submit L date_str fs file_name title category tags_list content =
     (case load_json L fs METADATA_FILE of
        Inl e \<Rightarrow> Inl e
      | Inr metadata \<Rightarrow>
        (if \<not> py_truthy metadata then Inr (fs, StInfo MSG_NO_DOC_TO_EDIT)
         else
           (case doc_edit_form fs metadata file_name of
              Inl e \<Rightarrow> Inl e
            | Inr u \<Rightarrow>
              (case create_document L date_str fs title category tags_list content of
                 Inl e \<Rightarrow> Inl e
               | Inr (fs', new_name) \<Rightarrow>
                   Inr (fs', StSuccess (MSG_DOC_PRE @ file_name @ MSG_DOC_EDITED))))))"

definition doc_delete_submit :: "pylib \<Rightarrow> filesys \<Rightarrow> string \<Rightarrow> pyerr + (filesys \<times> ui_msg)" where
  "doc_delete_submit L fs file_name =
     (case load_json L fs METADATA_FILE of
        Inl e \<Rightarrow> Inl e
      | Inr metadata \<Rightarrow>
        (if \<not> py_truthy metadata then Inr (fs, StInfo MSG_NO_DOC_TO_DELETE)
         else
           (case py_items metadata of
              Inl e \<Rightarrow> Inl e
            | Inr items \<Rightarrow>
              (case delete_document L fs file_name of
                 Inl e \<Rightarrow> Inl e
               | Inr fs' \<Rightarrow>
                   Inr (fs', StSuccess (MSG_DOC_PRE @ file_name @ MSG_DOC_DELETED))))))"

subsection \<open>Templates, prompts and keywords: the add actions\<close>

text \<open>
  The three add actions have one shape (lines 306 to 312, 359 to 365, 410 to 416):
  a key found in the store is refused with an error; otherwise the entry is set and
  the store saved.
\<close>

definition template_add_submit ::
  "pylib \<Rightarrow> filesys \<Rightarrow> string \<Rightarrow> string \<Rightarrow> string \<Rightarrow> pyerr + (filesys \<times> ui_msg)" where
  "template_add_submit L fs new_id new_name new_content =
     (case load_json L fs TEMPLATES_FILE of
        Inl e \<Rightarrow> Inl e
      | Inr templates \<Rightarrow>
        (case py_contains templates new_id of
           Inl e \<Rightarrow> Inl e
         | Inr found \<Rightarrow>
           (if found then Inr (fs, StError MSG_TEMPLATE_EXISTS)
            else
              (case py_setitem templates new_id
                      (JObj [(''template_name'', JStr new_name), (''content'', JStr new_content)]) of
                 Inl e \<Rightarrow> Inl e
               | Inr templates' \<Rightarrow>
                 (case save_json L fs TEMPLATES_FILE templates' of
                    Inl e \<Rightarrow> Inl e
                  | Inr fs' \<Rightarrow>
                      Inr (fs', StSuccess (MSG_TEMPLATE_PRE @ new_id @ MSG_ADDED)))))))"

definition prompt_add_submit ::
  "pylib \<Rightarrow> filesys \<Rightarrow> string \<Rightarrow> string \<Rightarrow> pyerr + (filesys \<times> ui_msg)" where
  "prompt_add_submit L fs prompt_id prompt_text =
     (case load_json L fs PROMPTS_FILE of
        Inl e \<Rightarrow> Inl e
      | Inr prompts \<Rightarrow>
        (case py_contains prompts prompt_id of
           Inl e \<Rightarrow> Inl e
         | Inr found \<Rightarrow>
           (if found then Inr (fs, StError MSG_PROMPT_EXISTS)
            else
              (case py_setitem prompts prompt_id (JStr prompt_text) of
                 Inl e \<Rightarrow> Inl e
               | Inr prompts' \<Rightarrow>
                 (case save_json L fs PROMPTS_FILE prompts' of
                    Inl e \<Rightarrow> Inl e
                  | Inr fs' \<Rightarrow>
                      Inr (fs', StSuccess (MSG_PROMPT_PRE @ prompt_id @ MSG_ADDED)))))))"

definition keyword_add_submit ::
  "pylib \<Rightarrow> filesys \<Rightarrow> string \<Rightarrow> string \<Rightarrow> pyerr + (filesys \<times> ui_msg)" where
  "keyword_add_submit L fs keyword description =
     (case load_json L fs KEYWORDS_FILE of
        Inl e \<Rightarrow> Inl e
      | Inr keywords \<Rightarrow>
        (case py_contains keywords keyword of
           Inl e \<Rightarrow> Inl e
         | Inr found \<Rightarrow>
           (if found then Inr (fs, StError MSG_KEYWORD_EXISTS)
            else
              (case py_setitem keywords keyword (JStr description) of
                 Inl e \<Rightarrow> Inl e
               | Inr keywords' \<Rightarrow>
                 (case save_json L fs KEYWORDS_FILE keywords' of
                    Inl e \<Rightarrow> Inl e
                  | Inr fs' \<Rightarrow>
                      Inr (fs', StSuccess (MSG_KEYWORD_PRE @ keyword @ MSG_ADDED)))))))"

section \<open>An instance of the libraries\<close>

text \<open>
  The theorems below hold for every library \<open>L\<close>. To evaluate the model on concrete
  states, \<open>py_ref\<close> implements the libraries' functions on the texts and values met
  there: JSON written with an indentation of four and read back as Python's \<^verbatim>\<open>json\<close>
  module does. Its limits: a number with a fraction or an exponent, \<^verbatim>\<open>NaN\<close> and
  \<^verbatim>\<open>Infinity\<close> are floating point numbers and a lone surrogate escape is not UTF-8, so
  \<open>json_loads_ref\<close> reads none of them; \<open>yaml_dump_ref\<close> and \<open>repr_list_ref\<close> quote
  nothing; \<open>exc_str_ref\<close> is the name of the exception's class.
\<close>

subsection \<open>Writing JSON\<close>

definition BACKSLASH :: char where "BACKSLASH = CHR 0x5C"

definition hex_char :: "nat \<Rightarrow> char" where
  "hex_char d = (if d < 10 then char_of (48 + d) else char_of (87 + d))"

definition json_escape :: "char \<Rightarrow> string" where
  "json_escape c =
     (if c = DQUOTE then [BACKSLASH, DQUOTE]
      else if c = BACKSLASH then [BACKSLASH, BACKSLASH]
      else if c = LF then [BACKSLASH, CHR ''n'']
      else if c = CR then [BACKSLASH, CHR ''r'']
      else if c = CHR 0x09 then [BACKSLASH, CHR ''t'']
      else if c = CHR 0x08 then [BACKSLASH, CHR ''b'']
      else if c = CHR 0x0C then [BACKSLASH, CHR ''f'']
      else if (of_char c :: nat) < 0x20
        then [BACKSLASH, CHR ''u'', CHR ''0'', CHR ''0'',
              hex_char (of_char c div 16), hex_char (of_char c mod 16)]
      else [c])"

definition json_string :: "string \<Rightarrow> string" where
  "json_string s = [DQUOTE] @ concat (map json_escape s) @ [DQUOTE]"

definition str_int :: "int \<Rightarrow> string" where
  "str_int n = (if n < 0 then CHR ''-'' # str_nat (nat (- n)) else str_nat (nat n))"

definition newline_indent :: "nat \<Rightarrow> string" where
  "newline_indent level = LF # replicate (4 * level) (CHR '' '')"

fun dump_json :: "nat \<Rightarrow> json \<Rightarrow> string"
  and dump_items :: "nat \<Rightarrow> json list \<Rightarrow> string"
  and dump_members :: "nat \<Rightarrow> (string \<times> json) list \<Rightarrow> string" where
  "dump_json level JNull = ''null''"
| "dump_json level (JBool b) = (if b then ''true'' else ''false'')"
| "dump_json level (JInt n) = str_int n"
| "dump_json level (JStr s) = json_string s"
| "dump_json level (JArr xs) =
     (if xs = [] then ''[]''
      else ''['' @ newline_indent (level + 1) @ dump_items (level + 1) xs
           @ newline_indent level @ '']'')"
| "dump_json level (JObj kvs) =
     (if kvs = [] then ''{}''
      else ''{'' @ newline_indent (level + 1) @ dump_members (level + 1) kvs
           @ newline_indent level @ ''}'')"
| "dump_items level [] = []"
| "dump_items level [x] = dump_json level x"
| "dump_items level (x # y # r) =
     dump_json level x @ '','' @ newline_indent level @ dump_items level (y # r)"
| "dump_members level [] = []"
| "dump_members level [(k, v)] = json_string k @ '': '' @ dump_json level v"
| "dump_members level ((k, v) # m # r) =
     json_string k @ '': '' @ dump_json level v @ '','' @ newline_indent level
     @ dump_members level (m # r)"


text \<open>\<^verbatim>\<open>json.dumps(d, ensure_ascii=False, indent=4)\<close>.\<close>

definition json_dumps_ref :: "json \<Rightarrow> string" where
  "json_dumps_ref d = dump_json 0 d"

subsection \<open>Reading JSON\<close>

definition is_ws :: "char \<Rightarrow> bool" where
  "is_ws c = (c = CHR '' '' \<or> c = CHR 0x09 \<or> c = LF \<or> c = CR)"

definition skip_ws :: "string \<Rightarrow> string" where
  "skip_ws s = dropWhile is_ws s"

definition is_digit :: "char \<Rightarrow> bool" where
  "is_digit c = (48 \<le> (of_char c :: nat) \<and> (of_char c :: nat) \<le> 57)"

definition hex_value :: "char \<Rightarrow> nat option" where
  "hex_value c =
     (let n = (of_char c :: nat)
      in if 48 \<le> n \<and> n \<le> 57 then Some (n - 48)
         else if 97 \<le> n \<and> n \<le> 102 then Some (n - 87)
         else if 65 \<le> n \<and> n \<le> 70 then Some (n - 55)
         else None)"

definition hex4 :: "string \<Rightarrow> nat option" where
  "hex4 s =
     (case map hex_value s of
        [Some a, Some b, Some c, Some d] \<Rightarrow> Some (4096 * a + 256 * b + 16 * c + d)
      | _ \<Rightarrow> None)"

definition utf8_encode :: "nat \<Rightarrow> string" where
  "utf8_encode cp =
     (if cp < 0x80 then bytes [cp]
      else if cp < 0x800 then bytes [0xC0 + cp div 64, 0x80 + cp mod 64]
      else if cp < 0x10000 then
        bytes [0xE0 + cp div 4096, 0x80 + (cp div 64) mod 64, 0x80 + cp mod 64]
      else
        bytes [0xF0 + cp div 262144, 0x80 + (cp div 4096) mod 64,
               0x80 + (cp div 64) mod 64, 0x80 + cp mod 64])"

definition simple_escape :: "char \<Rightarrow> char option" where
  "simple_escape e =
     (if e = DQUOTE then Some DQUOTE
      else if e = BACKSLASH then Some BACKSLASH
      else if e = SLASH then Some SLASH
      else if e = CHR ''b'' then Some (CHR 0x08)
      else if e = CHR ''f'' then Some (CHR 0x0C)
      else if e = CHR ''n'' then Some LF
      else if e = CHR ''r'' then Some CR
      else if e = CHR ''t'' then Some (CHR 0x09)
      else None)"

text \<open>
  A Unicode escape whose four digits start \<open>s\<close> (with the second escape of a surrogate
  pair): the character in UTF-8 and what follows it.
\<close>

definition unicode_escape :: "string \<Rightarrow> (string \<times> string) option" where
  "unicode_escape s =
     (case hex4 (take 4 s) of
        None \<Rightarrow> None
      | Some hi \<Rightarrow>
        (if 0xD800 \<le> hi \<and> hi \<le> 0xDBFF then
           (if take 2 (drop 4 s) = [BACKSLASH, CHR ''u''] then
              (case hex4 (take 4 (drop 6 s)) of
                 None \<Rightarrow> None
               | Some lo \<Rightarrow>
                 (if 0xDC00 \<le> lo \<and> lo \<le> 0xDFFF
                  then Some (utf8_encode (0x10000 + (hi - 0xD800) * 1024 + (lo - 0xDC00)),
                             drop 10 s)
                  else None))
            else None)
         else if 0xDC00 \<le> hi \<and> hi \<le> 0xDFFF then None
         else Some (utf8_encode hi, drop 4 s)))"

text \<open>
  A string after its opening quote: its characters and what follows the closing
  quote. \<open>fuel\<close> bounds the recursion; the length of the text is enough.
\<close>

fun parse_string :: "nat \<Rightarrow> string \<Rightarrow> (string \<times> string) option" where
  "parse_string fuel s =
     (if fuel = 0 then None
      else (case s of
        [] \<Rightarrow> None
      | c # r \<Rightarrow>
        (if c = DQUOTE then Some ([], r)
         else if c = BACKSLASH then
           (case r of
              [] \<Rightarrow> None
            | e # r1 \<Rightarrow>
              (if e = CHR ''u'' then
                 (case unicode_escape r1 of
                    None \<Rightarrow> None
                  | Some (u, r2) \<Rightarrow>
                    (case parse_string (fuel - 1) r2 of
                       None \<Rightarrow> None
                     | Some (t, rest) \<Rightarrow> Some (u @ t, rest)))
               else
                 (case simple_escape e of
                    None \<Rightarrow> None
                  | Some x \<Rightarrow>
                    (case parse_string (fuel - 1) r1 of
                       None \<Rightarrow> None
                     | Some (t, rest) \<Rightarrow> Some (x # t, rest)))))
         else if (of_char c :: nat) < 0x20 then None
         else
           (case parse_string (fuel - 1) r of
              None \<Rightarrow> None
            | Some (t, rest) \<Rightarrow> Some (c # t, rest)))))"

text \<open>Whether a fraction or an exponent follows an integer.\<close>

definition is_float_tail :: "string \<Rightarrow> bool" where
  "is_float_tail r =
     (case r of
        [] \<Rightarrow> False
      | c # r1 \<Rightarrow>
        (if c = CHR ''.'' then (r1 \<noteq> [] \<and> is_digit (hd r1))
         else if c = CHR ''e'' \<or> c = CHR ''E'' then
           (case r1 of
              [] \<Rightarrow> False
            | d # r2 \<Rightarrow>
              (if d = CHR ''+'' \<or> d = CHR ''-'' then (r2 \<noteq> [] \<and> is_digit (hd r2))
               else is_digit d))
         else False))"

definition parse_digits :: "string \<Rightarrow> (nat \<times> string) option" where
  "parse_digits s =
     (case s of
        [] \<Rightarrow> None
      | c # r \<Rightarrow>
        (if c = CHR ''0'' then Some (0, r)
         else if is_digit c then Some (nat_of_str (takeWhile is_digit s), dropWhile is_digit s)
         else None))"

definition parse_number :: "string \<Rightarrow> (json \<times> string) option" where
  "parse_number s =
     (case (if s \<noteq> [] \<and> hd s = CHR ''-'' then
              map_option (\<lambda>(n, r). (- int n, r)) (parse_digits (tl s))
            else map_option (\<lambda>(n, r). (int n, r)) (parse_digits s)) of
        None \<Rightarrow> None
      | Some (i, r) \<Rightarrow> (if is_float_tail r then None else Some (JInt i, r)))"

text \<open>
  A value at the start of \<open>s\<close>, the elements of an array and the members of an object
  (a repeated key keeps its first place and takes the last value).
\<close>

fun parse_value :: "nat \<Rightarrow> string \<Rightarrow> (json \<times> string) option"
  and parse_items :: "nat \<Rightarrow> string \<Rightarrow> json list \<Rightarrow> (json list \<times> string) option"
  and parse_members :: "nat \<Rightarrow> string \<Rightarrow> (string \<times> json) list
     \<Rightarrow> ((string \<times> json) list \<times> string) option" where
  "parse_value fuel s =
     (if fuel = 0 then None
      else (case s of
        [] \<Rightarrow> None
      | c # r \<Rightarrow>
        (if c = CHR ''{'' then
           (case skip_ws r of
              [] \<Rightarrow> None
            | d # r1 \<Rightarrow>
              (if d = CHR ''}'' then Some (JObj [], r1)
               else (case parse_members (fuel - 1) (d # r1) [] of
                  None \<Rightarrow> None
                | Some (kvs, rest) \<Rightarrow> Some (JObj kvs, rest))))
         else if c = CHR ''['' then
           (case skip_ws r of
              [] \<Rightarrow> None
            | d # r1 \<Rightarrow>
              (if d = CHR '']'' then Some (JArr [], r1)
               else (case parse_items (fuel - 1) (d # r1) [] of
                  None \<Rightarrow> None
                | Some (xs, rest) \<Rightarrow> Some (JArr xs, rest))))
         else if c = DQUOTE then
           (case parse_string (Suc (length r)) r of
              None \<Rightarrow> None
            | Some (t, rest) \<Rightarrow> Some (JStr t, rest))
         else if take 4 s = ''null'' then Some (JNull, drop 4 s)
         else if take 4 s = ''true'' then Some (JBool True, drop 4 s)
         else if take 5 s = ''false'' then Some (JBool False, drop 5 s)
         else parse_number s)))"
| "parse_items fuel s acc =
     (if fuel = 0 then None
      else (case parse_value (fuel - 1) s of
        None \<Rightarrow> None
      | Some (v, r) \<Rightarrow>
        (case skip_ws r of
           [] \<Rightarrow> None
         | c # r1 \<Rightarrow>
           (if c = CHR '','' then parse_items (fuel - 1) (skip_ws r1) (acc @ [v])
            else if c = CHR '']'' then Some (acc @ [v], r1)
            else None))))"
| "parse_members fuel s acc =
     (if fuel = 0 then None
      else (case s of
        [] \<Rightarrow> None
      | q # r \<Rightarrow>
        (if q \<noteq> DQUOTE then None
         else (case parse_string (Suc (length r)) r of
           None \<Rightarrow> None
         | Some (k, r1) \<Rightarrow>
           (case skip_ws r1 of
              [] \<Rightarrow> None
            | c # r2 \<Rightarrow>
              (if c \<noteq> CHR '':'' then None
               else (case parse_value (fuel - 1) (skip_ws r2) of
                 None \<Rightarrow> None
               | Some (v, r3) \<Rightarrow>
                 (case skip_ws r3 of
                    [] \<Rightarrow> None
                  | e # r4 \<Rightarrow>
                    (if e = CHR '','' then
                       parse_members (fuel - 1) (skip_ws r4) (AList.update k v acc)
                     else if e = CHR ''}'' then Some (AList.update k v acc, r4)
                     else None)))))))))"

text \<open>\<^verbatim>\<open>json.loads(t)\<close>: one value, with white space around it only.\<close>

definition json_loads_ref :: "string \<Rightarrow> json option" where
  "json_loads_ref t =
     (case parse_value (2 * length t + 2) (skip_ws t) of
        None \<Rightarrow> None
      | Some (v, r) \<Rightarrow> (if skip_ws r = [] then Some v else None))"

subsection \<open>The other functions\<close>

fun yaml_scalar :: "json \<Rightarrow> string" where
  "yaml_scalar (JStr s) = s"
| "yaml_scalar (JInt n) = str_int n"
| "yaml_scalar (JBool b) = (if b then ''true'' else ''false'')"
| "yaml_scalar x = ''null''"

fun yaml_ext :: "md_ext \<Rightarrow> string" where
  "yaml_ext (ExtName n) = ''- '' @ n @ [LF]"
| "yaml_ext (ExtToc b) =
     ''- toc:'' @ [LF] @ ''    permalink: '' @ (if b then ''true'' else ''false'') @ [LF]"

text \<open>The keys of the configuration in alphabetical order, as \<^verbatim>\<open>yaml.dump\<close> writes them.\<close>

definition yaml_dump_ref :: "mkdocs_config \<Rightarrow> string" where
  "yaml_dump_ref c =
     ''docs_dir: '' @ docs_dir c @ [LF]
     @ ''markdown_extensions:'' @ [LF] @ concat (map yaml_ext (markdown_extensions c))
     @ ''nav:'' @ [LF]
     @ concat (map (\<lambda>(label, target). ''- '' @ yaml_scalar label @ '': '' @ target @ [LF]) (nav c))
     @ ''plugins:'' @ [LF] @ concat (map (\<lambda>p. ''- '' @ p @ [LF]) (plugins c))
     @ ''site_name: '' @ site_name c @ [LF]
     @ ''theme:'' @ [LF] @ ''  name: '' @ theme_name c @ [LF]"

definition repr_list_ref :: "string list \<Rightarrow> string" where
  "repr_list_ref xs = ''['' @ py_join '', '' (map (\<lambda>x. [CHR 0x27] @ x @ [CHR 0x27]) xs) @ '']''"

fun exc_str_ref :: "pyerr \<Rightarrow> string" where
  "exc_str_ref FileNotFoundError = ''FileNotFoundError''"
| "exc_str_ref FileExistsError = ''FileExistsError''"
| "exc_str_ref IsADirectoryError = ''IsADirectoryError''"
| "exc_str_ref NotADirectoryError = ''NotADirectoryError''"
| "exc_str_ref UnicodeDecodeError = ''UnicodeDecodeError''"
| "exc_str_ref TypeError = ''TypeError''"
| "exc_str_ref KeyError = ''KeyError''"
| "exc_str_ref AttributeError = ''AttributeError''"

definition py_ref :: pylib where
  "py_ref =
     \<lparr>json_dumps = json_dumps_ref,
      json_loads = json_loads_ref,
      yaml_dump = yaml_dump_ref,
      repr_list = repr_list_ref,
      exc_str = exc_str_ref\<rparr>"

section \<open>Properties\<close>

subsection \<open>What the properties speak of\<close>

text \<open>
  The library reads back what it wrote: the text of \<open>d\<close> is a Python string, and
  \<^verbatim>\<open>json.load\<close> on a file holding it returns \<open>d\<close>. Python's \<^verbatim>\<open>json\<close> has this property
  for dictionaries with string keys and JSON values.
\<close>

definition library_roundtrip :: "pylib \<Rightarrow> json \<Rightarrow> bool" where
  "library_roundtrip L d =
     (utf8_valid (json_dumps L d)
      \<and> json_loads L (universal_newlines (json_dumps L d)) = Some d)"

fun is_mapping :: "json \<Rightarrow> bool" where
  "is_mapping (JObj kvs) = True"
| "is_mapping x = False"

text \<open>Three small file systems: a store cut short, a store of bytes, a store holding a list.\<close>

definition fs_truncated :: filesys where
  "fs_truncated = fmupd ''prompts.json'' (File ''{'') fmempty"

definition fs_binary :: filesys where
  "fs_binary = fmupd ''metadata.json'' (File [CHR 0xFF]) fmempty"

definition fs_array :: filesys where
  "fs_array = fmupd ''metadata.json'' (File ''[]'') fmempty"

subsection \<open>Files and stores\<close>

lemma write_text_ok:
  "open_write fs p = None \<Longrightarrow> write_text fs p t = Inr (fmupd p (File t) fs)"
  by (simp add: write_text_def)

lemma write_text_result:
  "write_text fs p t = Inr fs' \<Longrightarrow> fs' = fmupd p (File t) fs"
  by (auto simp: write_text_def split: option.splits)

lemma load_json_file:
  "fmlookup fs p = Some (File b) \<Longrightarrow> utf8_valid b \<Longrightarrow>
   load_json L fs p = Inr (case json_loads L (universal_newlines b) of Some v \<Rightarrow> v | None \<Rightarrow> JObj [])"
  by (simp add: load_json_def path_exists_def open_read_def decode_text_def split: option.splits)

lemma load_json_missing:
  "\<not> path_exists fs p \<Longrightarrow> load_json L fs p = Inr (JObj [])"
  by (simp add: load_json_def)

lemma load_json_not_dir:
  "load_json L fs p = Inr v \<Longrightarrow> fmlookup fs p \<noteq> Some Dir"
  by (auto simp: load_json_def path_exists_def open_read_def)

lemma load_json_cong:
  "fmlookup fs' p = fmlookup fs p \<Longrightarrow> load_json L fs' p = load_json L fs p"
  by (simp add: load_json_def path_exists_def open_read_def)

lemma load_json_written:
  "library_roundtrip L d \<Longrightarrow> fmlookup fs p = Some (File (json_dumps L d)) \<Longrightarrow>
   load_json L fs p = Inr d"
  by (simp add: load_json_file library_roundtrip_def)

lemma open_write_store:
  "fmlookup fs p \<noteq> Some Dir \<Longrightarrow> p \<noteq> [] \<Longrightarrow> SLASH \<notin> set p \<Longrightarrow> open_write fs p = None"
proof -
  assume a: "fmlookup fs p \<noteq> Some Dir" "p \<noteq> []" "SLASH \<notin> set p"
  then have "last p \<noteq> SLASH" by (metis last_in_set)
  moreover from a(3) have "dropWhile (\<lambda>c. c \<noteq> SLASH) (rev p) = []"
    by (auto simp: dropWhile_eq_Nil_conv)
  then have "dirname p = []" by (simp add: dirname_def)
  ultimately show ?thesis using a(1,2)
    by (auto simp: open_write_def split: option.splits node.splits)
qed

subsection \<open>Saving and loading a store\<close>

text \<open>
  C4. Where the path can be opened for writing and the library reads back what it
  writes, \<^verbatim>\<open>save_json\<close> returns and \<^verbatim>\<open>load_json\<close> on the same path then returns the value
  saved.
\<close>

theorem save_json_load_json_roundtrip:
  assumes "open_write fs p = None" and "library_roundtrip L d"
  shows "\<exists>fs'. save_json L fs p d = Inr fs' \<and> load_json L fs' p = Inr d"
proof -
  let ?fs' = "fmupd p (File (json_dumps L d)) fs"
  from assms(1) have "save_json L fs p d = Inr ?fs'"
    by (simp add: save_json_def write_text_ok)
  moreover from assms(2) have "load_json L ?fs' p = Inr d"
    by (simp add: load_json_written)
  ultimately show ?thesis by blast
qed

text \<open>A store of one template, saved in an empty directory and loaded again.\<close>

theorem save_json_load_json_roundtrip_witness:
  "open_write fmempty ''templates.json'' = None
   \<and> library_roundtrip py_ref
        (JObj [(''greeting'', JObj [(''template_name'', JStr ''Hello''), (''content'', JStr ''# Hi'')])])
   \<and> (\<exists>fs'. save_json py_ref fmempty ''templates.json''
          (JObj [(''greeting'', JObj [(''template_name'', JStr ''Hello''), (''content'', JStr ''# Hi'')])])
          = Inr fs'
        \<and> load_json py_ref fs' ''templates.json''
          = Inr (JObj [(''greeting'', JObj [(''template_name'', JStr ''Hello''), (''content'', JStr ''# Hi'')])]))"
proof -
  have w: "open_write fmempty ''templates.json'' = None"
    by (simp add: open_write_def dirname_def SLASH_def)
  have r: "library_roundtrip py_ref
      (JObj [(''greeting'', JObj [(''template_name'', JStr ''Hello''), (''content'', JStr ''# Hi'')])])"
    unfolding library_roundtrip_def py_ref_def by code_simp
  from w r save_json_load_json_roundtrip [OF w r] show ?thesis by blast
qed

text \<open>
  C5, as amended. \<^verbatim>\<open>load_json\<close> returns the empty dictionary, and raises nothing, on a
  path that does not exist, and on a file whose bytes are UTF-8 and whose text the
  parser rejects with \<^verbatim>\<open>json.JSONDecodeError\<close>.
\<close>

theorem load_json_missing_or_rejected:
  "(\<not> path_exists fs p \<longrightarrow> load_json L fs p = Inr (JObj []))
   \<and> (fmlookup fs q = Some (File b) \<and> utf8_valid b
        \<and> json_loads L (universal_newlines b) = None
      \<longrightarrow> load_json L fs q = Inr (JObj []))"
  by (simp add: load_json_missing load_json_file)

text \<open>A store that is missing, and one cut short after its first brace.\<close>

theorem load_json_missing_or_rejected_witness:
  "\<not> path_exists fs_truncated ''keywords.json''
   \<and> load_json py_ref fs_truncated ''keywords.json'' = Inr (JObj [])
   \<and> fmlookup fs_truncated ''prompts.json'' = Some (File ''{'')
   \<and> utf8_valid ''{''
   \<and> json_loads py_ref (universal_newlines ''{'') = None
   \<and> load_json py_ref fs_truncated ''prompts.json'' = Inr (JObj [])"
proof -
  have a: "\<not> path_exists fs_truncated ''keywords.json''"
    by (simp add: fs_truncated_def path_exists_def)
  have b: "fmlookup fs_truncated ''prompts.json'' = Some (File ''{'')"
    by (simp add: fs_truncated_def)
  have c: "utf8_valid ''{''"
    by (simp add: utf8_valid_def utf8_one_def)
  have d: "json_loads py_ref (universal_newlines ''{'') = None"
    unfolding py_ref_def by code_simp
  from a b c d
    load_json_missing_or_rejected [of fs_truncated "''keywords.json''" py_ref "''prompts.json''" "''{''"]
  show ?thesis by blast
qed

text \<open>
  C5 as stated fails: a file that is not JSON because its bytes are not UTF-8 (here the
  single byte 0xFF) makes \<^verbatim>\<open>load_json\<close> raise \<^verbatim>\<open>UnicodeDecodeError\<close>, which line 28 does
  not catch.
\<close>

theorem load_json_raises_on_binary:
  "fmlookup fs_binary ''metadata.json'' = Some (File [CHR 0xFF])
   \<and> load_json py_ref fs_binary ''metadata.json'' = Inl UnicodeDecodeError"
  by (simp add: fs_binary_def load_json_def path_exists_def open_read_def decode_text_def
      utf8_valid_def utf8_one_def)

text \<open>
  C10. A file whose text is JSON but not an object: \<^verbatim>\<open>load_json\<close> returns the value
  parsed, which is not a dictionary, and not the empty dictionary.
\<close>

theorem load_json_returns_any_value:
  assumes "fmlookup fs p = Some (File b)" and "utf8_valid b"
    and "json_loads L (universal_newlines b) = Some v" and "\<not> is_mapping v"
  shows "load_json L fs p = Inr v \<and> load_json L fs p \<noteq> Inr (JObj [])"
  using assms by (auto simp: load_json_file)

text \<open>The metadata file holding an empty list.\<close>

theorem load_json_returns_any_value_witness:
  "fmlookup fs_array ''metadata.json'' = Some (File ''[]'')
   \<and> utf8_valid ''[]''
   \<and> json_loads py_ref (universal_newlines ''[]'') = Some (JArr [])
   \<and> \<not> is_mapping (JArr [])
   \<and> load_json py_ref fs_array ''metadata.json'' = Inr (JArr [])
   \<and> load_json py_ref fs_array ''metadata.json'' \<noteq> Inr (JObj [])"
proof -
  have a: "fmlookup fs_array ''metadata.json'' = Some (File ''[]'')"
    by (simp add: fs_array_def)
  have b: "utf8_valid ''[]''"
    by (simp add: utf8_valid_def utf8_one_def)
  have c: "json_loads py_ref (universal_newlines ''[]'') = Some (JArr [])"
    unfolding py_ref_def by code_simp
  have d: "\<not> is_mapping (JArr [])" by simp
  from a b c d load_json_returns_any_value [OF a b c d] show ?thesis by blast
qed

subsection \<open>Merging\<close>

text \<open>
  C8. For a source directory that does not exist, \<^verbatim>\<open>merge_md_files\<close> returns the
  message of line 186 with the directory's path, and the file system is as it was: the
  output path is neither opened nor written.
\<close>

theorem merge_md_files_missing_folder:
  assumes "\<not> path_exists fs folder_path"
  shows "merge_md_files L now walk fs folder_path output_file
         = (fs, MSG_NO_FOLDER @ folder_path)"
  using assms by (simp add: merge_md_files_def)

theorem merge_md_files_missing_folder_witness:
  "\<not> path_exists fmempty ''/no/such/dir''
   \<and> merge_md_files py_ref ''2024-01-01 09:00:00'' [] fmempty ''/no/such/dir'' ''merged_overview.md''
       = (fmempty, MSG_NO_FOLDER @ ''/no/such/dir'')
   \<and> \<not> path_exists
         (fst (merge_md_files py_ref ''2024-01-01 09:00:00'' [] fmempty ''/no/such/dir''
                 ''merged_overview.md''))
         ''merged_overview.md''"
proof -
  have a: "\<not> path_exists fmempty ''/no/such/dir''"
    by (simp add: path_exists_def)
  from a merge_md_files_missing_folder [OF a] show ?thesis
    by (simp add: path_exists_def)
qed

subsection \<open>Example states\<close>

text \<open>
  The metadata of the example in the specification: one document, titled A, and no
  template, prompt or keyword.
\<close>

definition example_metadata :: "(string \<times> json) list" where
  "example_metadata = [(''2024-01-01-#1.md'', doc_meta ''A'' ''C'' [''x''])]"

definition example_stores :: "(string \<times> json) list" where
  "example_stores = [(''a'', JStr ''first'')]"

definition fs_example :: filesys where
  "fs_example = fmupd METADATA_FILE (File (json_dumps py_ref (JObj example_metadata))) fmempty"

lemma roundtrip_example_metadata: "library_roundtrip py_ref (JObj example_metadata)"
  unfolding library_roundtrip_def py_ref_def example_metadata_def doc_meta_def by code_simp

lemma roundtrip_empty: "library_roundtrip py_ref (JObj [])"
  unfolding library_roundtrip_def py_ref_def by code_simp

lemma load_example_metadata: "load_json py_ref fs_example METADATA_FILE = Inr (JObj example_metadata)"
  by (rule load_json_written [OF roundtrip_example_metadata]) (simp add: fs_example_def)

lemma load_example_other:
  "load_json py_ref fs_example TEMPLATES_FILE = Inr (JObj [])"
  "load_json py_ref fs_example PROMPTS_FILE = Inr (JObj [])"
  "load_json py_ref fs_example KEYWORDS_FILE = Inr (JObj [])"
  by (simp_all add: load_json_missing path_exists_def fs_example_def METADATA_FILE_def
      TEMPLATES_FILE_def PROMPTS_FILE_def KEYWORDS_FILE_def)

definition fs_stores :: filesys where
  "fs_stores =
     fmupd TEMPLATES_FILE
       (File (json_dumps py_ref
          (JObj [(''a'', JObj [(''template_name'', JStr ''n''), (''content'', JStr ''c'')])])))
       (fmupd PROMPTS_FILE (File (json_dumps py_ref (JObj example_stores)))
          (fmupd KEYWORDS_FILE (File (json_dumps py_ref (JObj example_stores))) fmempty))"

lemma roundtrip_example_stores:
  "library_roundtrip py_ref (JObj example_stores)"
  "library_roundtrip py_ref
     (JObj [(''a'', JObj [(''template_name'', JStr ''n''), (''content'', JStr ''c'')])])"
  unfolding library_roundtrip_def py_ref_def example_stores_def by code_simp+

text \<open>The example with its documents directory and the file of its document.\<close>

definition fs_one_doc :: filesys where
  "fs_one_doc =
     fmupd ''docs/2024-01-01-#1.md'' (File ''hello'')
       (fmupd DOCS_DIR Dir fs_example)"

subsection \<open>Adding a key that exists\<close>

text \<open>
  C6. Where the store is a dictionary that holds the key, each of the three add actions
  (template, prompt, keyword) shows its duplicate error and returns the file system
  unchanged: the store file is not written and the entry stays as it was.
\<close>

theorem duplicate_key_rejected:
  "(load_json L fs TEMPLATES_FILE = Inr (JObj ts) \<and> new_id \<in> set (map fst ts)
      \<longrightarrow> template_add_submit L fs new_id new_name new_content
            = Inr (fs, StError MSG_TEMPLATE_EXISTS))
   \<and> (load_json L fs PROMPTS_FILE = Inr (JObj ps) \<and> prompt_id \<in> set (map fst ps)
      \<longrightarrow> prompt_add_submit L fs prompt_id prompt_text
            = Inr (fs, StError MSG_PROMPT_EXISTS))
   \<and> (load_json L fs KEYWORDS_FILE = Inr (JObj ks) \<and> keyword \<in> set (map fst ks)
      \<longrightarrow> keyword_add_submit L fs keyword description
            = Inr (fs, StError MSG_KEYWORD_EXISTS))"
  by (simp add: template_add_submit_def prompt_add_submit_def keyword_add_submit_def)

text \<open>Three stores that hold the key \<^verbatim>\<open>a\<close>.\<close>

theorem duplicate_key_rejected_witness:
  "load_json py_ref fs_stores TEMPLATES_FILE
     = Inr (JObj [(''a'', JObj [(''template_name'', JStr ''n''), (''content'', JStr ''c'')])])
   \<and> ''a'' \<in> set (map fst [(''a'', JObj [(''template_name'', JStr ''n''), (''content'', JStr ''c'')])])
   \<and> template_add_submit py_ref fs_stores ''a'' ''other'' ''text''
       = Inr (fs_stores, StError MSG_TEMPLATE_EXISTS)
   \<and> load_json py_ref fs_stores PROMPTS_FILE = Inr (JObj example_stores)
   \<and> ''a'' \<in> set (map fst example_stores)
   \<and> prompt_add_submit py_ref fs_stores ''a'' ''text''
       = Inr (fs_stores, StError MSG_PROMPT_EXISTS)
   \<and> load_json py_ref fs_stores KEYWORDS_FILE = Inr (JObj example_stores)
   \<and> keyword_add_submit py_ref fs_stores ''a'' ''text''
       = Inr (fs_stores, StError MSG_KEYWORD_EXISTS)"
proof -
  have t: "load_json py_ref fs_stores TEMPLATES_FILE
     = Inr (JObj [(''a'', JObj [(''template_name'', JStr ''n''), (''content'', JStr ''c'')])])"
    by (rule load_json_written [OF roundtrip_example_stores(2)]) (simp add: fs_stores_def)
  have p: "load_json py_ref fs_stores PROMPTS_FILE = Inr (JObj example_stores)"
    by (rule load_json_written [OF roundtrip_example_stores(1)])
       (simp add: fs_stores_def TEMPLATES_FILE_def PROMPTS_FILE_def)
  have k: "load_json py_ref fs_stores KEYWORDS_FILE = Inr (JObj example_stores)"
    by (rule load_json_written [OF roundtrip_example_stores(1)])
       (simp add: fs_stores_def TEMPLATES_FILE_def PROMPTS_FILE_def KEYWORDS_FILE_def)
  have m: "''a'' \<in> set (map fst [(''a'', JObj [(''template_name'', JStr ''n''), (''content'', JStr ''c'')])])"
    "''a'' \<in> set (map fst example_stores)"
    by (simp_all add: example_stores_def)
  from t p k m
    duplicate_key_rejected [of py_ref fs_stores
      "[(''a'', JObj [(''template_name'', JStr ''n''), (''content'', JStr ''c'')])]" "''a''"
      "''other''" "''text''" example_stores "''a''" "''text''" example_stores "''a''" "''text''"]
  show ?thesis by blast
qed

subsection \<open>The navigation list\<close>

lemma nav_documents_titles:
  "map (\<lambda>(fname, meta). py_getitem meta ''title'') md = map Inr titles \<Longrightarrow>
   list_all py_hashable titles \<Longrightarrow>
   nav_documents md entries = Inr (entries @ zip titles (map fst md))"
proof (induction md arbitrary: titles entries)
  case Nil
  then show ?case by simp
next
  case (Cons a md)
  obtain fname meta where a: "a = (fname, meta)" by (cases a)
  from Cons.prems(1) a obtain t ts where ts: "titles = t # ts"
    and t: "py_getitem meta ''title'' = Inr t"
    and rest: "map (\<lambda>(fname, meta). py_getitem meta ''title'') md = map Inr ts"
    by (cases titles) auto
  from Cons.prems(2) ts have h: "py_hashable t" and hs: "list_all py_hashable ts"
    by simp_all
  from Cons.IH [OF rest hs] a t h ts show ?case
    by simp
qed

text \<open>
  C3. Where the four stores are dictionaries and every document has a title that can be
  a key, the configuration is built and its navigation list is the Home entry, then one
  entry per document in the order of the metadata (the title and the file name), then
  the Templates, Prompts and Keywords entries, each exactly when its store is not empty.
\<close>

theorem build_config_nav:
  assumes "load_json L fs METADATA_FILE = Inr (JObj md)"
    and "load_json L fs TEMPLATES_FILE = Inr (JObj ts)"
    and "load_json L fs PROMPTS_FILE = Inr (JObj ps)"
    and "load_json L fs KEYWORDS_FILE = Inr (JObj ks)"
    and "map (\<lambda>(fname, meta). py_getitem meta ''title'') md = map Inr titles"
    and "list_all py_hashable titles"
  shows "\<exists>cfg. build_config L fs = Inr cfg
           \<and> nav cfg = [(JStr ''Home'', ''index.md'')]
               @ zip titles (map fst md)
               @ (if ts \<noteq> [] then [(JStr ''Templates'', ''templates.md'')] else [])
               @ (if ps \<noteq> [] then [(JStr ''Prompts'', ''prompts.md'')] else [])
               @ (if ks \<noteq> [] then [(JStr ''Keywords'', ''keywords.md'')] else [])"
  using assms(1-4) nav_documents_titles [OF assms(5,6)]
  by (simp add: build_config_def base_config_def)

text \<open>The example of the specification: the list is Home and the document A.\<close>

theorem build_config_nav_witness:
  "load_json py_ref fs_example METADATA_FILE = Inr (JObj example_metadata)
   \<and> load_json py_ref fs_example TEMPLATES_FILE = Inr (JObj [])
   \<and> load_json py_ref fs_example PROMPTS_FILE = Inr (JObj [])
   \<and> load_json py_ref fs_example KEYWORDS_FILE = Inr (JObj [])
   \<and> map (\<lambda>(fname, meta). py_getitem meta ''title'') example_metadata = map Inr [JStr ''A'']
   \<and> list_all py_hashable [JStr ''A'']
   \<and> (\<exists>cfg. build_config py_ref fs_example = Inr cfg
         \<and> nav cfg = [(JStr ''Home'', ''index.md''), (JStr ''A'', ''2024-01-01-#1.md'')])"
proof -
  have t: "map (\<lambda>(fname, meta). py_getitem meta ''title'') example_metadata = map Inr [JStr ''A'']"
    by (simp add: example_metadata_def doc_meta_def)
  have h: "list_all py_hashable [JStr ''A'']" by simp
  from build_config_nav [OF load_example_metadata load_example_other t h]
  have "\<exists>cfg. build_config py_ref fs_example = Inr cfg
         \<and> nav cfg = [(JStr ''Home'', ''index.md''), (JStr ''A'', ''2024-01-01-#1.md'')]"
    by (simp add: example_metadata_def)
  with load_example_metadata load_example_other t h show ?thesis by blast
qed

subsection \<open>The landing page\<close>

lemma path_join_docs_index: "path_join DOCS_DIR ''index.md'' = ''docs/index.md''"
  by (simp add: path_join_def DOCS_DIR_def SLASH_def)

lemma docs_not_index: "DOCS_DIR \<noteq> ''docs/index.md''"
  by (simp add: DOCS_DIR_def)

lemma dirname_docs_index: "dirname ''docs/index.md'' = ''docs''"
  by (simp add: dirname_def SLASH_def)

lemma build_config_cong:
  assumes "fmlookup fs' METADATA_FILE = fmlookup fs METADATA_FILE"
    and "fmlookup fs' TEMPLATES_FILE = fmlookup fs TEMPLATES_FILE"
    and "fmlookup fs' PROMPTS_FILE = fmlookup fs PROMPTS_FILE"
    and "fmlookup fs' KEYWORDS_FILE = fmlookup fs KEYWORDS_FILE"
  shows "build_config L fs' = build_config L fs"
  unfolding build_config_def
    load_json_cong [OF assms(1)] load_json_cong [OF assms(2)]
    load_json_cong [OF assms(3)] load_json_cong [OF assms(4)]
  by (rule refl)

lemma open_write_config:
  "fmlookup fs MKDOCS_CONFIG \<noteq> Some Dir \<Longrightarrow> open_write fs MKDOCS_CONFIG = None"
  by (rule open_write_store) (simp_all add: MKDOCS_CONFIG_def SLASH_def)

lemma open_write_index:
  "fmlookup fs ''docs/index.md'' = None \<Longrightarrow> fmlookup fs DOCS_DIR = Some Dir \<Longrightarrow>
   open_write fs ''docs/index.md'' = None"
  by (simp add: open_write_def dirname_docs_index DOCS_DIR_def SLASH_def)

text \<open>What \<^verbatim>\<open>mkdocs_setup\<close> does to the file system once the configuration is built.\<close>

definition setup_effect :: "string \<Rightarrow> filesys \<Rightarrow> filesys" where
  "setup_effect yaml fs =
     (let fs1 = fmupd MKDOCS_CONFIG (File yaml) fs;
          fs2 = (if fmlookup fs DOCS_DIR = None then fmupd DOCS_DIR Dir fs1 else fs1)
      in if fmlookup fs ''docs/index.md'' = None
         then fmupd ''docs/index.md'' (File INDEX_DEFAULT) fs2 else fs2)"

lemma setup_effect_lookup:
  "fmlookup (setup_effect yaml fs) p =
     (if p = ''docs/index.md'' \<and> fmlookup fs ''docs/index.md'' = None then Some (File INDEX_DEFAULT)
      else if p = DOCS_DIR \<and> fmlookup fs DOCS_DIR = None then Some Dir
      else if p = MKDOCS_CONFIG then Some (File yaml)
      else fmlookup fs p)"
  by (simp add: setup_effect_def Let_def MKDOCS_CONFIG_def DOCS_DIR_def)

lemma mkdocs_setup_result:
  assumes cfg: "build_config L fs = Inr cfg"
    and yml: "fmlookup fs MKDOCS_CONFIG \<noteq> Some Dir"
    and docs: "fmlookup fs DOCS_DIR = None \<or> fmlookup fs DOCS_DIR = Some Dir"
  shows "mkdocs_setup L fs = Inr (setup_effect (yaml_dump L cfg) fs)"
proof -
  define fs1 where "fs1 = fmupd MKDOCS_CONFIG (File (yaml_dump L cfg)) fs"
  define fs2 where "fs2 = (if fmlookup fs DOCS_DIR = None then fmupd DOCS_DIR Dir fs1 else fs1)"
  have w1: "write_text fs MKDOCS_CONFIG (yaml_dump L cfg) = Inr fs1"
    using yml by (simp add: write_text_ok open_write_config fs1_def)
  have d1: "fmlookup fs1 DOCS_DIR = fmlookup fs DOCS_DIR"
    by (simp add: fs1_def MKDOCS_CONFIG_def DOCS_DIR_def)
  have d2: "fmlookup fs2 DOCS_DIR = Some Dir"
    using docs d1 by (auto simp: fs2_def)
  have i2: "fmlookup fs2 ''docs/index.md'' = fmlookup fs ''docs/index.md''"
    by (simp add: fs1_def fs2_def MKDOCS_CONFIG_def DOCS_DIR_def)
  have s: "mkdocs_setup L fs =
      (if fmlookup fs2 ''docs/index.md'' = None
       then write_text fs2 ''docs/index.md'' INDEX_DEFAULT else Inr fs2)"
    using cfg w1 d1
    by (simp add: mkdocs_setup_def path_join_docs_index path_exists_def fs2_def Let_def
        docs_not_index)
  have e: "setup_effect (yaml_dump L cfg) fs =
      (if fmlookup fs ''docs/index.md'' = None
       then fmupd ''docs/index.md'' (File INDEX_DEFAULT) fs2 else fs2)"
    by (simp add: setup_effect_def fs1_def fs2_def Let_def)
  show ?thesis
  proof (cases "fmlookup fs ''docs/index.md'' = None")
    case True
    with i2 d2 have "open_write fs2 ''docs/index.md'' = None"
      by (simp add: open_write_index)
    then have "write_text fs2 ''docs/index.md'' INDEX_DEFAULT
        = Inr (fmupd ''docs/index.md'' (File INDEX_DEFAULT) fs2)"
      by (rule write_text_ok)
    with True s e i2 show ?thesis by simp
  next
    case False
    with s e i2 show ?thesis by simp
  qed
qed

text \<open>
  C9. Where the configuration can be built and written and no regular file stands in
  the place of the documents directory, \<^verbatim>\<open>mkdocs_setup\<close> returns; after it the documents
  directory exists and so does \<^verbatim>\<open>docs/index.md\<close>, which holds the default content when
  it was absent and is as before when it was there. A second invocation leaves the
  landing file as the first left it.
\<close>

theorem mkdocs_setup_landing_page:
  assumes cfg: "build_config L fs = Inr cfg"
    and yml: "fmlookup fs MKDOCS_CONFIG \<noteq> Some Dir"
    and docs: "fmlookup fs DOCS_DIR = None \<or> fmlookup fs DOCS_DIR = Some Dir"
  shows "\<exists>fs'. mkdocs_setup L fs = Inr fs'
           \<and> fmlookup fs' DOCS_DIR = Some Dir
           \<and> path_exists fs' (path_join DOCS_DIR ''index.md'')
           \<and> fmlookup fs' (path_join DOCS_DIR ''index.md'')
               = (if path_exists fs (path_join DOCS_DIR ''index.md'')
                  then fmlookup fs (path_join DOCS_DIR ''index.md'')
                  else Some (File INDEX_DEFAULT))
           \<and> (\<exists>fs''. mkdocs_setup L fs' = Inr fs''
                 \<and> fmlookup fs'' (path_join DOCS_DIR ''index.md'')
                     = fmlookup fs' (path_join DOCS_DIR ''index.md''))"
proof -
  define fs' where "fs' = setup_effect (yaml_dump L cfg) fs"
  define fs'' where "fs'' = setup_effect (yaml_dump L cfg) fs'"
  have r: "mkdocs_setup L fs = Inr fs'"
    unfolding fs'_def by (rule mkdocs_setup_result [OF cfg yml docs])
  have d': "fmlookup fs' DOCS_DIR = Some Dir"
    using docs by (auto simp: fs'_def setup_effect_lookup MKDOCS_CONFIG_def DOCS_DIR_def)
  have i': "fmlookup fs' ''docs/index.md''
      = (if fmlookup fs ''docs/index.md'' = None then Some (File INDEX_DEFAULT)
         else fmlookup fs ''docs/index.md'')"
    by (simp add: fs'_def setup_effect_lookup MKDOCS_CONFIG_def DOCS_DIR_def)
  have cfg': "build_config L fs' = Inr cfg"
    unfolding cfg [symmetric]
    by (rule build_config_cong)
       (simp_all add: fs'_def setup_effect_lookup MKDOCS_CONFIG_def DOCS_DIR_def
          METADATA_FILE_def TEMPLATES_FILE_def PROMPTS_FILE_def KEYWORDS_FILE_def)
  have yml': "fmlookup fs' MKDOCS_CONFIG \<noteq> Some Dir"
    by (simp add: fs'_def setup_effect_lookup MKDOCS_CONFIG_def DOCS_DIR_def)
  have r2: "mkdocs_setup L fs' = Inr fs''"
    unfolding fs''_def by (rule mkdocs_setup_result [OF cfg' yml']) (simp add: d')
  have i'': "fmlookup fs'' ''docs/index.md'' = fmlookup fs' ''docs/index.md''"
    using i' by (simp add: fs''_def setup_effect_lookup MKDOCS_CONFIG_def DOCS_DIR_def)
  from r d' i' r2 i'' show ?thesis
    unfolding path_join_docs_index path_exists_def by auto
qed

text \<open>The example, before any build: the landing page is created, then kept.\<close>

theorem mkdocs_setup_landing_page_witness:
  "(\<exists>cfg. build_config py_ref fs_example = Inr cfg)
   \<and> fmlookup fs_example MKDOCS_CONFIG \<noteq> Some Dir
   \<and> fmlookup fs_example DOCS_DIR = None
   \<and> (\<exists>fs'. mkdocs_setup py_ref fs_example = Inr fs'
         \<and> fmlookup fs' DOCS_DIR = Some Dir
         \<and> fmlookup fs' ''docs/index.md'' = Some (File INDEX_DEFAULT)
         \<and> (\<exists>fs''. mkdocs_setup py_ref fs' = Inr fs''
               \<and> fmlookup fs'' ''docs/index.md'' = Some (File INDEX_DEFAULT)))"
proof -
  have t: "map (\<lambda>(fname, meta). py_getitem meta ''title'') example_metadata = map Inr [JStr ''A'']"
    by (simp add: example_metadata_def doc_meta_def)
  have h: "list_all py_hashable [JStr ''A'']" by simp
  from build_config_nav [OF load_example_metadata load_example_other t h]
  obtain cfg where cfg: "build_config py_ref fs_example = Inr cfg" by blast
  have yml: "fmlookup fs_example MKDOCS_CONFIG \<noteq> Some Dir"
    by (simp add: fs_example_def MKDOCS_CONFIG_def METADATA_FILE_def)
  have docs: "fmlookup fs_example DOCS_DIR = None"
    by (simp add: fs_example_def DOCS_DIR_def METADATA_FILE_def)
  have idx: "\<not> path_exists fs_example (path_join DOCS_DIR ''index.md'')"
    by (simp add: path_join_docs_index path_exists_def fs_example_def METADATA_FILE_def)
  from mkdocs_setup_landing_page [OF cfg yml disjI1 [OF docs]] idx
  have "\<exists>fs'. mkdocs_setup py_ref fs_example = Inr fs'
         \<and> fmlookup fs' DOCS_DIR = Some Dir
         \<and> fmlookup fs' ''docs/index.md'' = Some (File INDEX_DEFAULT)
         \<and> (\<exists>fs''. mkdocs_setup py_ref fs' = Inr fs''
               \<and> fmlookup fs'' ''docs/index.md'' = Some (File INDEX_DEFAULT))"
    by (auto simp: path_join_docs_index)
  with cfg yml docs show ?thesis by blast
qed

subsection \<open>Deleting a document\<close>

lemma docs_path_not_metadata: "path_join DOCS_DIR file_name \<noteq> METADATA_FILE"
  by (cases file_name) (auto simp: path_join_def DOCS_DIR_def METADATA_FILE_def SLASH_def)

lemma open_write_metadata:
  "fmlookup fs METADATA_FILE \<noteq> Some Dir \<Longrightarrow> open_write fs METADATA_FILE = None"
  by (rule open_write_store) (simp_all add: METADATA_FILE_def SLASH_def)

lemma load_markdown_file_missing:
  "fmlookup fs (path_join DOCS_DIR file_name) = None \<Longrightarrow> load_markdown_file fs file_name = Inr []"
  by (simp add: load_markdown_file_def path_exists_def)

text \<open>What \<^verbatim>\<open>delete_document\<close> does to the file system when the metadata are a dictionary.\<close>

definition delete_effect :: "pylib \<Rightarrow> (string \<times> json) list \<Rightarrow> string \<Rightarrow> filesys \<Rightarrow> filesys" where
  "delete_effect L kvs file_name fs =
     fmdrop (path_join DOCS_DIR file_name)
       (if file_name \<in> set (map fst kvs)
        then fmupd METADATA_FILE (File (json_dumps L (JObj (AList.delete file_name kvs)))) fs
        else fs)"

lemma fmdrop_absent: "fmlookup m k = None \<Longrightarrow> fmdrop k m = m"
  by (rule fmap_ext) simp

lemma delete_document_result:
  assumes md: "load_json L fs METADATA_FILE = Inr (JObj kvs)"
    and nodir: "fmlookup fs (path_join DOCS_DIR file_name) \<noteq> Some Dir"
  shows "delete_document L fs file_name = Inr (delete_effect L kvs file_name fs)"
proof -
  define path where "path = path_join DOCS_DIR file_name"
  define fs1 where "fs1 =
    (if file_name \<in> set (map fst kvs)
     then fmupd METADATA_FILE (File (json_dumps L (JObj (AList.delete file_name kvs)))) fs
     else fs)"
  have ne: "path \<noteq> METADATA_FILE"
    unfolding path_def by (rule docs_path_not_metadata)
  from md have "fmlookup fs METADATA_FILE \<noteq> Some Dir"
    by (rule load_json_not_dir)
  then have w: "save_json L fs METADATA_FILE (JObj (AList.delete file_name kvs))
      = Inr (fmupd METADATA_FILE (File (json_dumps L (JObj (AList.delete file_name kvs)))) fs)"
    by (simp add: save_json_def write_text_ok open_write_metadata)
  have l1: "fmlookup fs1 path = fmlookup fs path"
    using ne by (simp add: fs1_def)
  have s: "delete_document L fs file_name =
      (if path_exists fs1 path then os_remove fs1 path else Inr fs1)"
    using md w by (simp add: delete_document_def fs1_def path_def)
  have e: "delete_effect L kvs file_name fs = fmdrop path fs1"
    by (simp add: delete_effect_def fs1_def path_def)
  show ?thesis
  proof (cases "fmlookup fs path")
    case None
    with l1 have "fmlookup fs1 path = None" by simp
    with s e show ?thesis by (simp add: path_exists_def fmdrop_absent)
  next
    case (Some n)
    with nodir obtain b where "n = File b"
      by (cases n) (auto simp: path_def)
    with Some l1 have "fmlookup fs1 path = Some (File b)" by simp
    with s e show ?thesis by (simp add: path_exists_def os_remove_def)
  qed
qed

text \<open>
  C7. Where the metadata are a dictionary, the library reads back what it writes and the
  path of the document is not a directory, \<^verbatim>\<open>delete_document\<close> returns; after it
  \<^verbatim>\<open>load_markdown_file\<close> on the same name returns the empty string, the name is not a key
  of the metadata, and a second \<^verbatim>\<open>delete_document\<close> returns without a change. When
  neither the entry nor the file was there, nothing changes at all.
\<close>

theorem delete_document_then_read:
  assumes md: "load_json L fs METADATA_FILE = Inr (JObj kvs)"
    and lib: "library_roundtrip L (JObj (AList.delete file_name kvs))"
    and nodir: "fmlookup fs (path_join DOCS_DIR file_name) \<noteq> Some Dir"
  shows "\<exists>fs'. delete_document L fs file_name = Inr fs'
           \<and> load_markdown_file fs' file_name = Inr []
           \<and> (\<exists>kvs'. load_json L fs' METADATA_FILE = Inr (JObj kvs')
                 \<and> file_name \<notin> set (map fst kvs'))
           \<and> delete_document L fs' file_name = Inr fs'
           \<and> (file_name \<notin> set (map fst kvs) \<and> \<not> path_exists fs (path_join DOCS_DIR file_name)
              \<longrightarrow> fs' = fs)"
proof -
  define path where "path = path_join DOCS_DIR file_name"
  define fs' where "fs' = delete_effect L kvs file_name fs"
  have ne: "path \<noteq> METADATA_FILE"
    unfolding path_def by (rule docs_path_not_metadata)
  have r: "delete_document L fs file_name = Inr fs'"
    unfolding fs'_def by (rule delete_document_result [OF md nodir])
  have gone: "fmlookup fs' path = None"
    by (simp add: fs'_def delete_effect_def path_def)
  then have rd: "load_markdown_file fs' file_name = Inr []"
    unfolding path_def by (rule load_markdown_file_missing)
  have notin: "file_name \<notin> set (map fst (AList.delete file_name kvs))"
    by (simp add: delete_notin_dom)
  have md': "load_json L fs' METADATA_FILE = Inr (JObj (AList.delete file_name kvs))"
  proof (cases "file_name \<in> set (map fst kvs)")
    case True
    with ne have "fmlookup fs' METADATA_FILE
        = Some (File (json_dumps L (JObj (AList.delete file_name kvs))))"
      by (simp add: fs'_def delete_effect_def path_def [symmetric])
    with lib show ?thesis by (simp add: load_json_written)
  next
    case False
    then have same: "AList.delete file_name kvs = kvs"
      by (simp add: delete_id)
    from False ne have "fmlookup fs' METADATA_FILE = fmlookup fs METADATA_FILE"
      by (simp add: fs'_def delete_effect_def path_def [symmetric])
    then have "load_json L fs' METADATA_FILE = load_json L fs METADATA_FILE"
      by (rule load_json_cong)
    with md same show ?thesis by simp
  qed
  have again: "delete_document L fs' file_name = Inr fs'"
  proof -
    from gone have "fmlookup fs' (path_join DOCS_DIR file_name) \<noteq> Some Dir"
      by (simp add: path_def)
    from delete_document_result [OF md' this]
    have "delete_document L fs' file_name
        = Inr (delete_effect L (AList.delete file_name kvs) file_name fs')" .
    moreover have "delete_effect L (AList.delete file_name kvs) file_name fs' = fs'"
      using notin gone by (simp add: delete_effect_def path_def [symmetric] fmdrop_absent)
    ultimately show ?thesis by simp
  qed
  have unchanged: "file_name \<notin> set (map fst kvs) \<Longrightarrow> fmlookup fs path = None \<Longrightarrow> fs' = fs"
    by (simp add: fs'_def delete_effect_def path_def [symmetric] fmdrop_absent)
  from r rd md' notin again unchanged show ?thesis
    unfolding path_def [symmetric] path_exists_def by auto
qed

text \<open>Deleting the document of the example.\<close>

theorem delete_document_then_read_witness:
  "load_json py_ref fs_one_doc METADATA_FILE = Inr (JObj example_metadata)
   \<and> library_roundtrip py_ref (JObj (AList.delete ''2024-01-01-#1.md'' example_metadata))
   \<and> fmlookup fs_one_doc (path_join DOCS_DIR ''2024-01-01-#1.md'') \<noteq> Some Dir
   \<and> (\<exists>fs'. delete_document py_ref fs_one_doc ''2024-01-01-#1.md'' = Inr fs'
         \<and> load_markdown_file fs' ''2024-01-01-#1.md'' = Inr []
         \<and> load_json py_ref fs' METADATA_FILE = Inr (JObj [])
         \<and> delete_document py_ref fs' ''2024-01-01-#1.md'' = Inr fs')"
proof -
  have md: "load_json py_ref fs_one_doc METADATA_FILE = Inr (JObj example_metadata)"
    by (rule load_json_written [OF roundtrip_example_metadata])
       (simp add: fs_one_doc_def fs_example_def DOCS_DIR_def METADATA_FILE_def)
  have del: "AList.delete ''2024-01-01-#1.md'' example_metadata = []"
    by (simp add: example_metadata_def)
  have lib: "library_roundtrip py_ref (JObj (AList.delete ''2024-01-01-#1.md'' example_metadata))"
    unfolding del by (rule roundtrip_empty)
  have nodir: "fmlookup fs_one_doc (path_join DOCS_DIR ''2024-01-01-#1.md'') \<noteq> Some Dir"
    by (simp add: fs_one_doc_def path_join_def DOCS_DIR_def SLASH_def)
  from delete_document_then_read [OF md lib nodir]
  obtain fs' kvs' where r: "delete_document py_ref fs_one_doc ''2024-01-01-#1.md'' = Inr fs'"
    and rd: "load_markdown_file fs' ''2024-01-01-#1.md'' = Inr []"
    and again: "delete_document py_ref fs' ''2024-01-01-#1.md'' = Inr fs'"
    by blast
  have "fs' = delete_effect py_ref example_metadata ''2024-01-01-#1.md'' fs_one_doc"
    using r delete_document_result [OF md nodir] by simp
  then have "fmlookup fs' METADATA_FILE = Some (File (json_dumps py_ref (JObj [])))"
    by (simp add: delete_effect_def example_metadata_def path_join_def DOCS_DIR_def SLASH_def
        METADATA_FILE_def)
  then have "load_json py_ref fs' METADATA_FILE = Inr (JObj [])"
    by (rule load_json_written [OF roundtrip_empty])
  with md lib nodir r rd again show ?thesis by blast
qed

end
